theory Spec2Isabelle
  imports Main "HOL-Library.Word"
begin

section \<open>JSON values and the JavaScript conversions the module relies on\<close>

text \<open>
  The module \<^verbatim>\<open>src/js/json-rpc.js\<close> works on the values that \<^verbatim>\<open>JSON.parse\<close> yields and
  \<^verbatim>\<open>JSON.stringify\<close> accepts. An object is an association list in insertion order (its keys
  distinct, as \<^verbatim>\<open>JSON.parse\<close> leaves them); a property that is absent reads as
  \<^verbatim>\<open>undefined\<close>, which the model writes \<open>None\<close>.

  A number is a JavaScript Number. The model holds the integers from \<open>- (2 ^ 53)\<close> to
  \<open>2 ^ 53 - 1\<close>: each of them is a Number of its own, and \<^verbatim>\<open>Number.prototype.toString\<close>
  writes all of its decimal digits. They are the values of a 54-bit word read as a signed
  integer (\<open>sint\<close>). Fractions, \<^verbatim>\<open>NaN\<close>, the infinities and larger magnitudes (which
  round, and print with trailing zeros or an exponent) are no values of the type.
\<close>

type_synonym safe_integer = "54 word"

datatype json =
    JNull
  | JBool bool
  | JNum safe_integer
  | JStr string
  | JArr "json list"
  | JObj "(string \<times> json) list"

text \<open>
  \<^verbatim>\<open>x != null\<close> holds for every value but \<^verbatim>\<open>null\<close> and \<^verbatim>\<open>undefined\<close>;
  \<open>non_null\<close> returns the value when the test holds.
\<close>

definition non_null :: "json option \<Rightarrow> json option" where
  "non_null v = (case v of None \<Rightarrow> None | Some x \<Rightarrow> if x = JNull then None else Some x)"

text \<open>\<^verbatim>\<open>x instanceof Object\<close> on a decoded value: arrays and objects, no primitive.\<close>

fun instanceof_Object :: "json \<Rightarrow> bool" where
  "instanceof_Object (JArr xs) = True"
| "instanceof_Object (JObj kvs) = True"
| "instanceof_Object v = False"

subsection \<open>Numbers as decimal strings\<close>

definition digit_char :: "nat \<Rightarrow> char" where
  "digit_char d = ''0123456789'' ! d"

definition digit_val :: "char \<Rightarrow> nat" where
  "digit_val c = of_char c - 48"

text \<open>\<^verbatim>\<open>Number.prototype.toString\<close> on a non-negative integer: its decimal digits.\<close>

fun nat_to_string :: "nat \<Rightarrow> string" where
  "nat_to_string n =
     (if n < 10 then [digit_char n] else nat_to_string (n div 10) @ [digit_char (n mod 10)])"

declare nat_to_string.simps [simp del]

text \<open>Reading a string of decimal digits as an integer (the inverse rendering).\<close>

definition string_to_nat :: "string \<Rightarrow> nat" where
  "string_to_nat s = foldl (\<lambda>acc c. acc * 10 + digit_val c) 0 s"

definition int_to_string :: "int \<Rightarrow> string" where
  "int_to_string i = (if i < 0 then CHR ''-'' # nat_to_string (nat (- i)) else nat_to_string (nat i))"

subsection \<open>Conversion to a string and loose equality\<close>

fun join_comma :: "string list \<Rightarrow> string" where
  "join_comma [] = []"
| "join_comma [s] = s"
| "join_comma (s # t # ss) = s @ '','' @ join_comma (t # ss)"

text \<open>
  JavaScript's conversion of a decoded value to a string. The module runs it where it uses a
  value as a property key (\<^verbatim>\<open>table[v]\<close>), appends one with \<^verbatim>\<open>+\<close>, puts one in a template
  string, or compares an array or an object with a string literal (\<^verbatim>\<open>!=\<close>).

  A primitive always converts. An object is converted by the \<^verbatim>\<open>toString\<close> it has: the
  inherited one answers \<^verbatim>\<open>"[object Object]"\<close>; an own property \<^verbatim>\<open>toString\<close> of a decoded
  object holds data, which cannot be called, and then \<^verbatim>\<open>valueOf\<close> (own data, or the inherited
  one that returns the object itself) yields no primitive either, so the conversion raises a
  \<^verbatim>\<open>TypeError\<close>: the result is \<open>None\<close>. An array joins the conversions of its elements with
  commas, \<^verbatim>\<open>null\<close> elements as the empty string, and raises when an element does.
\<close>

fun js_to_string :: "json \<Rightarrow> string option" where
  "js_to_string JNull = Some ''null''"
| "js_to_string (JBool b) = Some (if b then ''true'' else ''false'')"
| "js_to_string (JNum i) = Some (int_to_string (sint i))"
| "js_to_string (JStr s) = Some s"
| "js_to_string (JArr xs) =
     map_option join_comma (those (map (\<lambda>x. if x = JNull then Some [] else js_to_string x) xs))"
| "js_to_string (JObj kvs) =
     (if map_of kvs ''toString'' = None then Some ''[object Object]'' else None)"

text \<open>
  The key of \<^verbatim>\<open>table[v]\<close> when \<open>v\<close> may be \<^verbatim>\<open>undefined\<close>; \<open>None\<close> when the conversion
  raises.
\<close>

definition property_key :: "json option \<Rightarrow> string option" where
  "property_key v = (case v of None \<Rightarrow> Some ''undefined'' | Some x \<Rightarrow> js_to_string x)"

text \<open>Whether converting \<open>v\<close> raises; \<^verbatim>\<open>undefined\<close> and the primitives never do.\<close>

definition conversion_raises :: "json option \<Rightarrow> bool" where
  "conversion_raises v = (property_key v = None)"

text \<open>
  \<^verbatim>\<open>v == lit\<close> for a string literal \<open>lit\<close> of the source, whose ToNumber is \<open>num\<close>
  (\<open>None\<close> for NaN): strings compare as strings, numbers and booleans as numbers, arrays and
  objects through their conversion to a string, \<^verbatim>\<open>null\<close> and \<^verbatim>\<open>undefined\<close> never. Where
  the conversion raises, so does the comparison (\<open>conversion_raises\<close>), and \<open>loose_eq\<close> is
  false.
\<close>

fun loose_eq :: "json option \<Rightarrow> string \<Rightarrow> int option \<Rightarrow> bool" where
  "loose_eq None lit num = False"
| "loose_eq (Some JNull) lit num = False"
| "loose_eq (Some (JBool b)) lit num = (num = Some (if b then 1 else 0))"
| "loose_eq (Some (JNum i)) lit num = (num = Some (sint i))"
| "loose_eq (Some (JStr s)) lit num = (s = lit)"
| "loose_eq (Some (JArr xs)) lit num = (js_to_string (JArr xs) = Some lit)"
| "loose_eq (Some (JObj kvs)) lit num = (js_to_string (JObj kvs) = Some lit)"

text \<open>The comparisons of the source with \<^verbatim>\<open>"2.0"\<close> and with \<^verbatim>\<open>""\<close>.\<close>

definition eq_version :: "json option \<Rightarrow> bool" where
  "eq_version v = loose_eq v ''2.0'' (Some 2)"

definition eq_empty_string :: "json option \<Rightarrow> bool" where
  "eq_empty_string v = loose_eq v [] (Some 0)"

section \<open>Promises\<close>

text \<open>
  The module hands out promises and settles them from inbound frames. The model keeps them
  in a table, a promise being its index. A promise made by \<^verbatim>\<open>new Promise\<close> is settled by
  its \<^verbatim>\<open>resolve\<close> and \<^verbatim>\<open>reject\<close> functions, once; the promise of \<^verbatim>\<open>Promise.all\<close> follows
  its inputs: rejected with the reason of the first input that rejects, fulfilled with the
  array of all values (in input order) when the last input fulfils. Promise reactions are
  microtasks, run before the next inbound message is handled; the model applies them at once.
\<close>

datatype reason = Reason json | ErrorObject string

datatype promise_state = Pending | Fulfilled json | Rejected reason

datatype promise = Promise promise_state | PromiseAll "nat list" promise_state

fun state_of :: "promise \<Rightarrow> promise_state" where
  "state_of (Promise st) = st"
| "state_of (PromiseAll inputs st) = st"

definition fulfilled_value :: "promise list \<Rightarrow> nat \<Rightarrow> json option" where
  "fulfilled_value ps d =
     (if d < length ps then (case state_of (ps ! d) of Fulfilled v \<Rightarrow> Some v | _ \<Rightarrow> None) else None)"

fun first_rejected :: "promise list \<Rightarrow> nat list \<Rightarrow> reason option" where
  "first_rejected ps [] = None"
| "first_rejected ps (d # ds) =
     (if d < length ps then (case state_of (ps ! d) of Rejected r \<Rightarrow> Some r | _ \<Rightarrow> first_rejected ps ds)
      else first_rejected ps ds)"

text \<open>\<^verbatim>\<open>Promise.all(inputs)\<close>, from the states the inputs have when it is called.\<close>

definition promise_all :: "nat list \<Rightarrow> promise list \<Rightarrow> promise" where
  "promise_all inputs ps =
     PromiseAll inputs
       (case first_rejected ps inputs of
          Some r \<Rightarrow> Rejected r
        | None \<Rightarrow> (case those (map (fulfilled_value ps) inputs) of
                     Some vs \<Rightarrow> Fulfilled (JArr vs)
                   | None \<Rightarrow> Pending))"

text \<open>The reaction of one promise of the table to input \<open>p\<close> settling as \<open>st\<close>.\<close>

fun all_reaction :: "nat \<Rightarrow> promise_state \<Rightarrow> promise list \<Rightarrow> promise \<Rightarrow> promise" where
  "all_reaction p st ps (PromiseAll inputs Pending) =
     (if p \<in> set inputs then
        (case st of
           Rejected r \<Rightarrow> PromiseAll inputs (Rejected r)
         | Fulfilled v \<Rightarrow>
             (case those (map (fulfilled_value ps) inputs) of
                Some vs \<Rightarrow> PromiseAll inputs (Fulfilled (JArr vs))
              | None \<Rightarrow> PromiseAll inputs Pending)
         | Pending \<Rightarrow> PromiseAll inputs Pending)
      else PromiseAll inputs Pending)"
| "all_reaction p st ps q = q"

text \<open>\<^verbatim>\<open>resolve(v)\<close> or \<^verbatim>\<open>reject(r)\<close> of promise \<open>p\<close>: no effect unless \<open>p\<close> is pending.\<close>

definition settle :: "nat \<Rightarrow> promise_state \<Rightarrow> promise list \<Rightarrow> promise list" where
  "settle p st ps =
     (if p < length ps \<and> ps ! p = Promise Pending
      then map (all_reaction p st (ps[p := Promise st])) (ps[p := Promise st])
      else ps)"

section \<open>The engine and its environment\<close>

text \<open>
  A thrown value is an object, given by the properties \<^verbatim>\<open>in\<close> and property reads see on it
  (own or inherited: an \<^verbatim>\<open>Error\<close> made without a message has the inherited message
  \<^verbatim>\<open>""\<close>), or a primitive. A registered method is a function from its arguments to what
  the call does: it returns a value (\<open>None\<close> for \<^verbatim>\<open>undefined\<close>) or throws. What a method
  does outside the engine is not modelled, and a method does not call back into the engine.
\<close>

datatype thrown = ThrownObject "(string \<times> json) list" | ThrownPrimitive json

datatype outcome = Returns "json option" | Throws thrown

datatype completion = Normal | Abrupt thrown

type_synonym js_function = "json list \<Rightarrow> outcome"

text \<open>
  The closure stored in \<^verbatim>\<open>pending_callbacks\<close>: the one of \<^verbatim>\<open>call_method\<close> and
  \<^verbatim>\<open>call_method_with_kwargs\<close> holds its promise, the one of \<^verbatim>\<open>send_batch_request\<close> also
  the entry's method name and index.
\<close>

datatype callback = CallCallback nat | BatchCallback nat string nat

datatype log_entry = LogText string | LogValue json

type_synonym transport_handle = nat

text \<open>
  The first four fields are those of the class. The others are what the class acts on: the
  frames handed to \<^verbatim>\<open>transport.send\<close> (each the value given to \<^verbatim>\<open>JSON.stringify\<close>, with the
  transport that got it), the lines written with \<^verbatim>\<open>console.log\<close>, and the promise table.

  \<^verbatim>\<open>id_counter\<close> is a JavaScript Number. Numbers count exactly up to \<open>2 ^ 53\<close>; there
  \<^verbatim>\<open>id_counter++\<close> leaves the value as it is, since \<open>2 ^ 53 + 1\<close> rounds back to \<open>2 ^ 53\<close>.
\<close>

record engine =
  id_counter :: nat
  methods :: "string \<rightharpoonup> js_function"
  pending_callbacks :: "string \<rightharpoonup> callback"
  transport :: "transport_handle option"
  sent :: "(transport_handle \<times> json) list"
  console :: "log_entry list"
  promises :: "promise list"

definition constructor :: engine where
  "constructor =
     \<lparr>id_counter = 0, methods = Map.empty, pending_callbacks = Map.empty, transport = None,
      sent = [], console = [], promises = []\<rparr>"

definition number_increment :: "nat \<Rightarrow> nat" where
  "number_increment n = (if n < 2 ^ 53 then n + 1 else n)"

definition create_uid :: "engine \<Rightarrow> string \<times> engine" where
  "create_uid s = (nat_to_string (id_counter s), s\<lparr>id_counter := number_increment (id_counter s)\<rparr>)"

subsection \<open>Properties inherited from \<^verbatim>\<open>Object.prototype\<close>\<close>

text \<open>
  \<^verbatim>\<open>methods\<close> and \<^verbatim>\<open>pending_callbacks\<close> are made by \<^verbatim>\<open>new Object()\<close>, so a read
  \<^verbatim>\<open>table[key]\<close> that finds no entry goes on to \<^verbatim>\<open>Object.prototype\<close> and returns the
  property of that name there, which is not \<^verbatim>\<open>null\<close>. The property names of the frames
  themselves (\<^verbatim>\<open>jsonrpc\<close>, \<^verbatim>\<open>id\<close>, \<^verbatim>\<open>method\<close>, \<^verbatim>\<open>params\<close>, \<^verbatim>\<open>result\<close>, \<^verbatim>\<open>error\<close>,
  \<^verbatim>\<open>message\<close>) are not among the inherited ones, so a read or an \<^verbatim>\<open>in\<close> test of those
  sees an object's own entries only.
\<close>

definition object_prototype_keys :: "string list" where
  "object_prototype_keys =
     [''constructor'', ''__defineGetter__'', ''__defineSetter__'', ''hasOwnProperty'',
      ''__lookupGetter__'', ''__lookupSetter__'', ''isPrototypeOf'', ''propertyIsEnumerable'',
      ''toString'', ''valueOf'', ''__proto__'', ''toLocaleString'']"

datatype 'a looked_up = Own 'a | Inherited string

definition lookup :: "(string \<rightharpoonup> 'a) \<Rightarrow> string \<Rightarrow> 'a looked_up option" where
  "lookup table key =
     (case table key of
        Some v \<Rightarrow> Some (Own v)
      | None \<Rightarrow> if key \<in> set object_prototype_keys then Some (Inherited key) else None)"

text \<open>
  A \<^verbatim>\<open>TypeError\<close> raised by the language. Its message is the JavaScript engine's own text,
  never empty; the model writes the error's name for it.
\<close>

definition type_error :: thrown where
  "type_error = ThrownObject [(''name'', JStr ''TypeError''), (''message'', JStr ''TypeError'')]"

text \<open>
  Calling an inherited property as the module calls what it read from a table: as a plain
  function, so with \<^verbatim>\<open>this\<close> undefined. \<^verbatim>\<open>toString\<close> answers for the undefined receiver,
  \<^verbatim>\<open>constructor\<close> is \<^verbatim>\<open>Object\<close> and returns its argument as an object (serialised as the
  argument itself), \<^verbatim>\<open>isPrototypeOf\<close> returns false for a primitive argument before it looks
  at the receiver; everything else converts the receiver to an object first, or is no
  function at all (\<^verbatim>\<open>__proto__\<close>), and throws a \<^verbatim>\<open>TypeError\<close>.
\<close>

definition call_inherited :: "string \<Rightarrow> json list \<Rightarrow> outcome" where
  "call_inherited name args =
     (if name = ''toString'' then Returns (Some (JStr ''[object Undefined]''))
      else if name = ''constructor'' then
        Returns (Some (case args of [] \<Rightarrow> JObj [] | v # _ \<Rightarrow> if v = JNull then JObj [] else v))
      else if name = ''isPrototypeOf'' then
        (case args of
           [] \<Rightarrow> Returns (Some (JBool False))
         | v # _ \<Rightarrow> if instanceof_Object v then Throws type_error else Returns (Some (JBool False)))
      else Throws type_error)"

subsection \<open>Building frames\<close>

definition build_request :: "string \<Rightarrow> string option \<Rightarrow> json option \<Rightarrow> json list \<Rightarrow> json" where
  "build_request method_name uid kwargs args =
     JObj ([(''jsonrpc'', JStr ''2.0''), (''method'', JStr method_name)]
           @ (case uid of Some u \<Rightarrow> [(''id'', JStr u)] | None \<Rightarrow> [])
           @ (case non_null kwargs of
                Some k \<Rightarrow> [(''params'', k)]
              | None \<Rightarrow> if length args > 0 then [(''params'', JArr args)] else []))"

definition log :: "log_entry list \<Rightarrow> engine \<Rightarrow> engine" where
  "log entries s = s\<lparr>console := console s @ entries\<rparr>"

text \<open>
  \<^verbatim>\<open>_build_error\<close> makes the frame with \<^verbatim>\<open>id: null\<close> and puts the request's id in when the
  request has one; it logs the error and the request. The template string of the first log
  line converts the message: when that raises, \<^verbatim>\<open>_build_error\<close> raises before it has logged
  anything (\<open>None\<close>).
\<close>

definition error_frame :: "json \<Rightarrow> safe_integer \<Rightarrow> json \<Rightarrow> json" where
  "error_frame message code rid =
     JObj [(''jsonrpc'', JStr ''2.0''),
           (''error'', JObj [(''message'', message), (''code'', JNum code)]),
           (''id'', rid)]"

definition build_error ::
  "json \<Rightarrow> safe_integer \<Rightarrow> (string \<times> json) list \<Rightarrow> engine \<Rightarrow> (json \<times> engine) option" where
  "build_error message code request s =
     (case js_to_string message of
        None \<Rightarrow> None
      | Some text \<Rightarrow>
          Some (error_frame message code (case map_of request ''id'' of Some i \<Rightarrow> i | None \<Rightarrow> JNull),
                log [LogText (''JSON-RPC Request Error: '' @ int_to_string (sint code) @ '' '' @ text),
                     LogValue (JObj request)] s))"

text \<open>
  \<^verbatim>\<open>register_method\<close>. An assignment to the key \<^verbatim>\<open>__proto__\<close> adds no entry: it replaces
  the table's prototype, after which the table inherits other properties than those above.
  The model does not follow that table and returns \<open>None\<close>.
\<close>

definition register_method :: "string \<Rightarrow> js_function \<Rightarrow> engine \<Rightarrow> engine option" where
  "register_method method_name f s =
     (if method_name = ''__proto__'' then None else Some (s\<lparr>methods := (methods s)(method_name \<mapsto> f)\<rparr>))"

definition register_transport :: "transport_handle \<Rightarrow> engine \<Rightarrow> engine" where
  "register_transport t s = s\<lparr>transport := Some t\<rparr>"

definition new_promise :: "promise \<Rightarrow> engine \<Rightarrow> nat \<times> engine" where
  "new_promise p s = (length (promises s), s\<lparr>promises := promises s @ [p]\<rparr>)"

section \<open>Outbound calls\<close>

text \<open>
  \<^verbatim>\<open>call_method(method_name, ...args)\<close>. \<open>call_method_uid\<close> is the function with the
  identifier it allocated returned beside the promise.
\<close>

definition call_method_uid :: "string \<Rightarrow> json list \<Rightarrow> engine \<Rightarrow> string \<times> nat \<times> engine" where
  "call_method_uid method_name args s =
     (let (uid, s1) = create_uid s;
          request = build_request method_name (Some uid) None args
      in case transport s1 of
           Some t \<Rightarrow>
             (let s2 = s1\<lparr>sent := sent s1 @ [(t, request)]\<rparr>;
                  (p, s3) = new_promise (Promise Pending) s2
              in (uid, p, s3\<lparr>pending_callbacks := (pending_callbacks s3)(uid \<mapsto> CallCallback p)\<rparr>))
         | None \<Rightarrow>
             (let (p, s2) = new_promise (Promise (Rejected (ErrorObject ''No Transport Initialized''))) s1
              in (uid, p, s2)))"

definition call_method :: "string \<Rightarrow> json list \<Rightarrow> engine \<Rightarrow> nat \<times> engine" where
  "call_method method_name args s = snd (call_method_uid method_name args s)"

text \<open>\<^verbatim>\<open>call_method_with_kwargs(method_name, kwargs)\<close>, likewise.\<close>

definition call_method_with_kwargs_uid ::
  "string \<Rightarrow> json option \<Rightarrow> engine \<Rightarrow> string \<times> nat \<times> engine" where
  "call_method_with_kwargs_uid method_name kwargs s =
     (let (uid, s1) = create_uid s;
          request = build_request method_name (Some uid) kwargs []
      in case transport s1 of
           Some t \<Rightarrow>
             (let s2 = s1\<lparr>sent := sent s1 @ [(t, request)]\<rparr>;
                  (p, s3) = new_promise (Promise Pending) s2
              in (uid, p, s3\<lparr>pending_callbacks := (pending_callbacks s3)(uid \<mapsto> CallCallback p)\<rparr>))
         | None \<Rightarrow>
             (let (p, s2) = new_promise (Promise (Rejected (ErrorObject ''No Transport Initialized''))) s1
              in (uid, p, s2)))"

definition call_method_with_kwargs :: "string \<Rightarrow> json option \<Rightarrow> engine \<Rightarrow> nat \<times> engine" where
  "call_method_with_kwargs method_name kwargs s = snd (call_method_with_kwargs_uid method_name kwargs s)"

definition notify :: "string \<Rightarrow> json list \<Rightarrow> engine \<Rightarrow> engine" where
  "notify method_name args s =
     (let notification = build_request method_name None None args
      in case transport s of
           Some t \<Rightarrow> s\<lparr>sent := sent s @ [(t, notification)]\<rparr>
         | None \<Rightarrow> s)"

subsection \<open>Batches\<close>

text \<open>
  An entry of the array given to \<^verbatim>\<open>send_batch_request\<close>, in the shape the source documents:
  \<^verbatim>\<open>method\<close>, \<^verbatim>\<open>type\<close> (\<^verbatim>\<open>"request"\<close> or \<^verbatim>\<open>"notification"\<close>) and, if applicable,
  \<^verbatim>\<open>params\<close>.
\<close>

record batch_entry =
  req_method :: string
  req_type :: string
  req_params :: "json option"

text \<open>
  The spread \<^verbatim>\<open>...args\<close>: the elements of an array, the characters of a string; any other
  value is not iterable and the spread raises a \<^verbatim>\<open>TypeError\<close> (\<open>None\<close>).
\<close>

fun spread :: "json \<Rightarrow> json list option" where
  "spread (JArr xs) = Some xs"
| "spread (JStr s) = Some (map (\<lambda>c. JStr [c]) s)"
| "spread v = None"

text \<open>
  The \<^verbatim>\<open>forEach\<close> of \<^verbatim>\<open>send_batch_request\<close>, from index \<open>idx\<close> on, with the frames and promises
  collected so far. \<^verbatim>\<open>params\<close> that are an array or an object are sent as they are;
  any other value is spread into positional arguments, after the identifier is allocated
  and the callback stored.
\<close>

fun batch_loop ::
  "nat \<Rightarrow> batch_entry list \<Rightarrow> json list \<Rightarrow> nat list \<Rightarrow> engine \<Rightarrow> (thrown + json list \<times> nat list) \<times> engine" where
  "batch_loop idx [] batch_request ps s = (Inr (batch_request, ps), s)"
| "batch_loop idx (request # rest) batch_request ps s =
     (let name = req_method request;
          kwargs = (case req_params request of
                      Some v \<Rightarrow> if instanceof_Object v then Some v else None
                    | None \<Rightarrow> None);
          args = (case req_params request of
                    Some v \<Rightarrow> if instanceof_Object v then JArr [] else v
                  | None \<Rightarrow> JArr []);
          (uid, ps1, s1) =
            (if req_type request = ''request'' then
               (let (u, sa) = create_uid s;
                    (p, sb) = new_promise (Promise Pending) sa
                in (Some u, ps @ [p],
                    sb\<lparr>pending_callbacks := (pending_callbacks sb)(u \<mapsto> BatchCallback p name idx)\<rparr>))
             else (None, ps, s))
      in case spread args of
           None \<Rightarrow> (Inl type_error, s1)
         | Some xs \<Rightarrow>
             batch_loop (Suc idx) rest (batch_request @ [build_request name uid kwargs xs]) ps1 s1)"

definition send_batch_request :: "batch_entry list \<Rightarrow> engine \<Rightarrow> (thrown + nat) \<times> engine" where
  "send_batch_request requests s =
     (case transport s of
        None \<Rightarrow>
          (let (p, s1) = new_promise (Promise (Rejected (ErrorObject ''No Transport Initialized''))) s
           in (Inr p, s1))
      | Some t \<Rightarrow>
          (case batch_loop 0 requests [] [] s of
             (Inl e, s1) \<Rightarrow> (Inl e, s1)
           | (Inr (batch_request, ps), s1) \<Rightarrow>
               (let s2 = s1\<lparr>sent := sent s1 @ [(t, JArr batch_request)]\<rparr>;
                    (p, s3) = new_promise (promise_all ps (promises s2)) s2
                in (Inr p, s3))))"

section \<open>Inbound frames\<close>

text \<open>
  Calling a stored callback as \<^verbatim>\<open>response_finalize(result, error)\<close>; a missing second
  argument is \<open>None\<close>. The index of a batch entry is an array index, below \<open>2 ^ 32\<close>.
\<close>

definition batch_response :: "string \<Rightarrow> nat \<Rightarrow> string \<Rightarrow> json \<Rightarrow> json" where
  "batch_response name idx key v =
     JObj [(''method'', JStr name), (''index'', JNum (of_nat idx)), (key, v)]"

fun invoke_callback :: "callback \<Rightarrow> json \<Rightarrow> json option \<Rightarrow> promise list \<Rightarrow> promise list" where
  "invoke_callback (CallCallback p) result error ps =
     (case non_null error of
        Some e \<Rightarrow> settle p (Rejected (Reason e)) ps
      | None \<Rightarrow> settle p (Fulfilled result) ps)"
| "invoke_callback (BatchCallback p name idx) result error ps =
     (case non_null error of
        Some e \<Rightarrow> settle p (Rejected (Reason (batch_response name idx ''error'' e))) ps
      | None \<Rightarrow> settle p (Fulfilled (batch_response name idx ''result'' result)) ps)"

text \<open>
  \<^verbatim>\<open>_handle_response\<close>. \<open>handle_response_error\<close> is its \<^verbatim>\<open>else if (response.error != null)\<close>
  with the final \<^verbatim>\<open>else\<close>. The read \<^verbatim>\<open>this.pending_callbacks[uid]\<close> converts the id to a
  property key; when that raises, the \<^verbatim>\<open>TypeError\<close> leaves \<^verbatim>\<open>_handle_response\<close> with
  nothing done.
\<close>

definition handle_response_error :: "(string \<times> json) list \<Rightarrow> engine \<Rightarrow> completion \<times> engine" where
  "handle_response_error response s =
     (case non_null (map_of response ''error'') of
        Some error \<Rightarrow>
          (case property_key (map_of response ''id'') of
             None \<Rightarrow> (Abrupt type_error, s)
           | Some uid \<Rightarrow>
               (case lookup (pending_callbacks s) uid of
                  Some (Own response_finalize) \<Rightarrow>
                    (Normal, s\<lparr>promises := invoke_callback response_finalize JNull (Some error) (promises s),
                               pending_callbacks := (pending_callbacks s)(uid := None)\<rparr>)
                | Some (Inherited name) \<Rightarrow>
                    (case call_inherited name [JNull, error] of
                       Returns r \<Rightarrow> (Normal, s)
                     | Throws e \<Rightarrow> (Abrupt e, s))
                | None \<Rightarrow> (Normal, log [LogText ''JSON-RPC error recieved'', LogValue error] s)))
      | None \<Rightarrow> (Normal, log [LogText ''Invalid JSON-RPC response'', LogValue (JObj response)] s))"

definition handle_response :: "(string \<times> json) list \<Rightarrow> engine \<Rightarrow> completion \<times> engine" where
  "handle_response response s =
     (case (non_null (map_of response ''result''), non_null (map_of response ''id'')) of
        (Some result, Some rid) \<Rightarrow>
          (case js_to_string rid of
             None \<Rightarrow> (Abrupt type_error, s)
           | Some uid \<Rightarrow>
               (case lookup (pending_callbacks s) uid of
                  Some (Own response_finalize) \<Rightarrow>
                    (Normal, s\<lparr>promises := invoke_callback response_finalize result None (promises s),
                               pending_callbacks := (pending_callbacks s)(uid := None)\<rparr>)
                | Some (Inherited name) \<Rightarrow>
                    (case call_inherited name [result] of
                       Returns r \<Rightarrow> (Normal, s)
                     | Throws e \<Rightarrow> (Abrupt e, s))
                | None \<Rightarrow>
                    (Normal, log [LogText ''No Registered RPC Call for uid:'', LogValue (JObj response)] s)))
      | _ \<Rightarrow> handle_response_error response s)"

text \<open>
  \<^verbatim>\<open>_handle_request\<close>. \<open>try_block\<close> is what its \<^verbatim>\<open>try\<close> does with the method found:
  the call's outcome, or \<open>None\<close> when the parameters are neither an array nor an object and
  the method is not called. \<open>send_response\<close> is the final
  \<^verbatim>\<open>if (response != null && this.transport != null)\<close>. A result that is \<^verbatim>\<open>undefined\<close>
  leaves no \<^verbatim>\<open>result\<close> field in what \<^verbatim>\<open>JSON.stringify\<close> writes.
\<close>

definition try_block :: "js_function looked_up \<Rightarrow> json option \<Rightarrow> outcome option" where
  "try_block m params =
     (let f = (case m of Own g \<Rightarrow> g | Inherited name \<Rightarrow> call_inherited name)
      in case params of
           None \<Rightarrow> Some (f [])
         | Some (JArr xs) \<Rightarrow> Some (f xs)
         | Some (JObj kvs) \<Rightarrow> Some (f [JObj kvs])
         | Some v \<Rightarrow> None)"

definition send_response :: "json option \<Rightarrow> engine \<Rightarrow> engine" where
  "send_response response s =
     (case (response, transport s) of
        (Some r, Some t) \<Rightarrow> s\<lparr>sent := sent s @ [(t, r)]\<rparr>
      | _ \<Rightarrow> s)"

text \<open>
  The message of the \<^verbatim>\<open>catch\<close>, when its comparison does not raise: the thrown object's
  \<^verbatim>\<open>message\<close> when it has one that is not \<^verbatim>\<open>== ""\<close>, else \<^verbatim>\<open>"Server Error"\<close>. The
  comparison is the loose one: beside the empty string, \<open>0\<close>, \<^verbatim>\<open>false\<close> and an array that
  converts to the empty string are equal to \<^verbatim>\<open>""\<close>.
\<close>

definition server_error_message :: "(string \<times> json) list \<Rightarrow> json" where
  "server_error_message error =
     (case map_of error ''message'' of
        Some m \<Rightarrow> if eq_empty_string (Some m) then JStr ''Server Error'' else m
      | None \<Rightarrow> JStr ''Server Error'')"

text \<open>
  Three things of \<^verbatim>\<open>_handle_request\<close> raise a \<^verbatim>\<open>TypeError\<close> that leaves it before
  anything is logged or sent: the read \<^verbatim>\<open>this.methods[request.method]\<close> when the method
  value does not convert to a property key; the test \<^verbatim>\<open>"message" in error\<close> of the
  \<^verbatim>\<open>catch\<close> when the thrown value is a primitive; and the comparison
  \<^verbatim>\<open>error.message != ""\<close> when the message does not convert.
\<close>

definition handle_request :: "(string \<times> json) list \<Rightarrow> engine \<Rightarrow> completion \<times> engine" where
  "handle_request request s =
     (case property_key (map_of request ''method'') of
        None \<Rightarrow> (Abrupt type_error, s)
      | Some key \<Rightarrow>
          (case lookup (methods s) key of
             None \<Rightarrow> (Normal, log [LogText (''Invalid Method: '' @ key)] s)
           | Some m \<Rightarrow>
               (case try_block m (map_of request ''params'') of
                  None \<Rightarrow>
                    (case build_error (JStr ''Invalid Parameters'') (- 32602) request s of
                       None \<Rightarrow> (Abrupt type_error, s)
                     | Some (response, s1) \<Rightarrow> (Normal, send_response (Some response) s1))
                | Some (Returns ret) \<Rightarrow>
                    (case map_of request ''id'' of
                       Some rid \<Rightarrow>
                         (Normal,
                          send_response
                            (Some (JObj ([(''jsonrpc'', JStr ''2.0'')]
                                         @ (case ret of Some v \<Rightarrow> [(''result'', v)] | None \<Rightarrow> [])
                                         @ [(''id'', rid)]))) s)
                     | None \<Rightarrow> (Normal, send_response None s))
                | Some (Throws (ThrownPrimitive v)) \<Rightarrow> (Abrupt type_error, s)
                | Some (Throws (ThrownObject error)) \<Rightarrow>
                    if conversion_raises (map_of error ''message'') then (Abrupt type_error, s)
                    else
                      (case build_error (server_error_message error) (- 31000) request s of
                         None \<Rightarrow> (Abrupt type_error, s)
                       | Some (response, s1) \<Rightarrow> (Normal, send_response (Some response) s1)))))"

text \<open>
  \<^verbatim>\<open>_validate_and_dispatch\<close>. Reading \<^verbatim>\<open>rpc_data.jsonrpc\<close> raises a \<^verbatim>\<open>TypeError\<close> when the
  datum is \<^verbatim>\<open>null\<close> and gives \<^verbatim>\<open>undefined\<close> on any other value that is no object. The
  comparison with \<^verbatim>\<open>"2.0"\<close> raises when the tag is an array or object that does not convert.
\<close>

definition validate_and_dispatch :: "json \<Rightarrow> engine \<Rightarrow> completion \<times> engine" where
  "validate_and_dispatch rpc_data s =
     (case rpc_data of
        JNull \<Rightarrow> (Abrupt type_error, s)
      | JObj kvs \<Rightarrow>
          if conversion_raises (map_of kvs ''jsonrpc'') then (Abrupt type_error, s)
          else if \<not> eq_version (map_of kvs ''jsonrpc'') then
            (Normal, log [LogText ''Invalid JSON-RPC data'', LogValue rpc_data] s)
          else if map_of kvs ''result'' \<noteq> None \<or> map_of kvs ''error'' \<noteq> None then
            handle_response kvs s
          else if map_of kvs ''method'' \<noteq> None then
            handle_request kvs s
          else (Normal, log [LogText ''Invalid JSON-RPC data'', LogValue rpc_data] s)
      | _ \<Rightarrow> (Normal, log [LogText ''Invalid JSON-RPC data'', LogValue rpc_data] s))"

fun dispatch_each :: "json list \<Rightarrow> engine \<Rightarrow> completion \<times> engine" where
  "dispatch_each [] s = (Normal, s)"
| "dispatch_each (d # ds) s =
     (case validate_and_dispatch d s of
        (Normal, s1) \<Rightarrow> dispatch_each ds s1
      | (Abrupt e, s1) \<Rightarrow> (Abrupt e, s1))"

text \<open>
  \<^verbatim>\<open>process_received\<close>, on the value \<^verbatim>\<open>JSON.parse\<close> gives for the text received; text that
  \<^verbatim>\<open>JSON.parse\<close> rejects makes it throw before the engine is touched.
\<close>

definition process_received :: "json \<Rightarrow> engine \<Rightarrow> completion \<times> engine" where
  "process_received rpc_data s =
     (case rpc_data of
        JArr ds \<Rightarrow> dispatch_each ds s
      | _ \<Rightarrow> validate_and_dispatch rpc_data s)"

text \<open>
  Inbound messages handled one after the other, each in its own event: one that throws does
  not stop the later ones.
\<close>

fun receive_all :: "json list \<Rightarrow> engine \<Rightarrow> engine" where
  "receive_all [] s = s"
| "receive_all (d # ds) s = receive_all ds (snd (process_received d s))"

section \<open>Engines for the examples\<close>

text \<open>A fresh engine with transport \<open>0\<close> bound.\<close>

definition engine_with_transport :: engine where
  "engine_with_transport = register_transport 0 constructor"

text \<open>The same after \<^verbatim>\<open>call_method("a")\<close>: identifier \<^verbatim>\<open>"0"\<close> is outstanding.\<close>

definition engine_with_call :: engine where
  "engine_with_call = snd (call_method ''a'' [] engine_with_transport)"

text \<open>
  The method table after four registrations: \<^verbatim>\<open>echo\<close> returns its first argument, \<^verbatim>\<open>boom\<close>
  throws \<^verbatim>\<open>Error("boom")\<close>, \<^verbatim>\<open>fail\<close> throws \<^verbatim>\<open>Error()\<close> (whose message is empty),
  \<^verbatim>\<open>raw\<close> throws the string \<^verbatim>\<open>"boom"\<close>.
\<close>

definition example_methods :: "string \<rightharpoonup> js_function" where
  "example_methods =
     [''echo'' \<mapsto> (\<lambda>args. Returns (case args of [] \<Rightarrow> None | v # vs \<Rightarrow> Some v)),
      ''boom'' \<mapsto> (\<lambda>args. Throws (ThrownObject [(''message'', JStr ''boom'')])),
      ''fail'' \<mapsto> (\<lambda>args. Throws (ThrownObject [(''message'', JStr [])])),
      ''raw'' \<mapsto> (\<lambda>args. Throws (ThrownPrimitive (JStr ''boom'')))]"

definition engine_with_methods :: engine where
  "engine_with_methods = engine_with_transport\<lparr>methods := example_methods\<rparr>"

definition engine_without_transport :: engine where
  "engine_without_transport = constructor\<lparr>methods := example_methods\<rparr>"

text \<open>
  An engine with a transport and the one method \<^verbatim>\<open>thrower\<close>, which throws an object whose
  message is \<open>m\<close>.
\<close>

definition engine_with_thrower :: "json \<Rightarrow> engine" where
  "engine_with_thrower m =
     engine_with_transport
       \<lparr>methods := [''thrower'' \<mapsto> (\<lambda>args. Throws (ThrownObject [(''message'', m)]))]\<rparr>"

section \<open>Reading frames and runs of the engine\<close>

text \<open>The field \<open>k\<close> of a frame the engine built (\<open>None\<close> when the frame has no such field).\<close>

definition property :: "json \<Rightarrow> string \<Rightarrow> json option" where
  "property v k = (case v of JObj kvs \<Rightarrow> map_of kvs k | _ \<Rightarrow> None)"

text \<open>
  What is done with an engine over time: calls of both kinds, notifications, and inbound
  messages in between. \<open>run\<close> performs the operations in order and collects the identifiers
  that the calls allocated.
\<close>

datatype operation =
    Call string "json list"
  | CallWithKwargs string "json option"
  | Notify string "json list"
  | Receive json

fun run :: "operation list \<Rightarrow> engine \<Rightarrow> string list \<times> engine" where
  "run [] s = ([], s)"
| "run (Call method_name args # ops) s =
     (case call_method_uid method_name args s of
        (uid, p, s1) \<Rightarrow> (case run ops s1 of (uids, s2) \<Rightarrow> (uid # uids, s2)))"
| "run (CallWithKwargs method_name kwargs # ops) s =
     (case call_method_with_kwargs_uid method_name kwargs s of
        (uid, p, s1) \<Rightarrow> (case run ops s1 of (uids, s2) \<Rightarrow> (uid # uids, s2)))"
| "run (Notify method_name args # ops) s = run ops (notify method_name args s)"
| "run (Receive rpc_data # ops) s = run ops (snd (process_received rpc_data s))"

definition assigned_uids :: "operation list \<Rightarrow> engine \<Rightarrow> string list" where
  "assigned_uids ops s = fst (run ops s)"

fun is_call :: "operation \<Rightarrow> bool" where
  "is_call (Call method_name args) = True"
| "is_call (CallWithKwargs method_name kwargs) = True"
| "is_call op = False"

definition count_calls :: "operation list \<Rightarrow> nat" where
  "count_calls ops = length (filter is_call ops)"

section \<open>The batch of three entries\<close>

text \<open>
  The batch \<^verbatim>\<open>[{method:"a",type:"request"},{method:"b",type:"notification"},
  {method:"c",type:"request"}]\<close>, and the two kinds of response frame a remote peer
  answers a request with.
\<close>

definition example_batch :: "batch_entry list" where
  "example_batch =
     [\<lparr>req_method = ''a'', req_type = ''request'', req_params = None\<rparr>,
      \<lparr>req_method = ''b'', req_type = ''notification'', req_params = None\<rparr>,
      \<lparr>req_method = ''c'', req_type = ''request'', req_params = None\<rparr>]"

definition result_frame :: "string \<Rightarrow> json \<Rightarrow> json" where
  "result_frame uid r = JObj [(''jsonrpc'', JStr ''2.0''), (''result'', r), (''id'', JStr uid)]"

definition error_reply :: "string \<Rightarrow> json \<Rightarrow> json" where
  "error_reply uid e = JObj [(''jsonrpc'', JStr ''2.0''), (''error'', e), (''id'', JStr uid)]"

text \<open>
  The state of the promise that \<^verbatim>\<open>send_batch_request\<close> returns for this batch, after the
  given inbound messages have been received (\<open>None\<close> if the batch is not sent).
\<close>

definition batch_outcome :: "json list \<Rightarrow> engine \<Rightarrow> promise_state option" where
  "batch_outcome inbound s =
     (case send_batch_request example_batch s of
        (Inr p, s1) \<Rightarrow> Some (state_of (promises (receive_all inbound s1) ! p))
      | (Inl e, s1) \<Rightarrow> None)"

section \<open>Decimal rendering is injective\<close>

lemma digit_val_digit_char: "d < 10 \<Longrightarrow> digit_val (digit_char d) = d"
proof -
  assume "d < 10"
  then have "d \<in> {0, 1, 2, 3, 4, 5, 6, 7, 8, 9}"
    by auto
  then show ?thesis
    by (auto simp add: digit_val_def digit_char_def)
qed

lemma string_to_nat_snoc: "string_to_nat (s @ [c]) = string_to_nat s * 10 + digit_val c"
  by (simp add: string_to_nat_def)

lemma string_to_nat_nat_to_string: "string_to_nat (nat_to_string n) = n"
proof (induction n rule: nat_to_string.induct)
  case (1 n)
  show ?case
  proof (cases "n < 10")
    case True
    then show ?thesis
      by (subst nat_to_string.simps) (simp add: string_to_nat_def digit_val_digit_char)
  next
    case False
    with 1 have "string_to_nat (nat_to_string (n div 10)) = n div 10"
      by simp
    with False show ?thesis
      by (subst nat_to_string.simps) (simp add: string_to_nat_snoc digit_val_digit_char)
  qed
qed

lemma nat_to_string_inj: "nat_to_string m = nat_to_string n \<Longrightarrow> m = n"
  by (metis string_to_nat_nat_to_string)

section \<open>Reading the tables\<close>

lemma non_null_simps [simp]:
  "non_null None = None"
  "non_null (Some JNull) = None"
  "v \<noteq> JNull \<Longrightarrow> non_null (Some v) = Some v"
  by (simp_all add: non_null_def)

lemma non_null_Some: "non_null v = Some x \<longleftrightarrow> v = Some x \<and> x \<noteq> JNull"
  by (auto simp add: non_null_def split: option.splits)

lemma non_null_None: "non_null v = None \<longleftrightarrow> v = None \<or> v = Some JNull"
  by (auto simp add: non_null_def split: option.splits)

lemma lookup_own: "table key = Some v \<Longrightarrow> lookup table key = Some (Own v)"
  by (simp add: lookup_def)

lemma lookup_none:
  "table key = None \<Longrightarrow> key \<notin> set object_prototype_keys \<Longrightarrow> lookup table key = None"
  by (simp add: lookup_def)

section \<open>The engines of the examples, computed\<close>

lemma nat_to_string_zero: "nat_to_string 0 = ''0''"
  by (simp add: nat_to_string.simps digit_char_def)

lemma engine_with_transport_eq:
  "engine_with_transport =
     \<lparr>id_counter = 0, methods = Map.empty, pending_callbacks = Map.empty,
      transport = Some 0, sent = [], console = [], promises = []\<rparr>"
  by (simp add: engine_with_transport_def register_transport_def constructor_def)

lemma engine_with_call_eq:
  "engine_with_call =
     \<lparr>id_counter = 1, methods = Map.empty, pending_callbacks = [''0'' \<mapsto> CallCallback 0],
      transport = Some 0,
      sent = [(0, JObj [(''jsonrpc'', JStr ''2.0''), (''method'', JStr ''a''), (''id'', JStr ''0'')])],
      console = [], promises = [Promise Pending]\<rparr>"
  by (simp add: engine_with_call_def engine_with_transport_def call_method_def call_method_uid_def
      create_uid_def register_transport_def constructor_def new_promise_def nat_to_string.simps
      digit_char_def number_increment_def build_request_def)

lemma engine_with_methods_eq:
  "engine_with_methods =
     \<lparr>id_counter = 0, methods = example_methods, pending_callbacks = Map.empty,
      transport = Some 0, sent = [], console = [], promises = []\<rparr>"
  by (simp add: engine_with_methods_def engine_with_transport_def register_transport_def
      constructor_def)

lemma engine_without_transport_eq:
  "engine_without_transport =
     \<lparr>id_counter = 0, methods = example_methods, pending_callbacks = Map.empty,
      transport = None, sent = [], console = [], promises = []\<rparr>"
  by (simp add: engine_without_transport_def constructor_def)

section \<open>Calls without a transport\<close>

text \<open>
  Claim C10. With no transport bound, \<^verbatim>\<open>call_method\<close> and \<^verbatim>\<open>call_method_with_kwargs\<close>
  return a promise that is already rejected with the error \<^verbatim>\<open>"No Transport Initialized"\<close>,
  store no callback and send nothing, and yet the identifier counter has advanced by one.
  The counter is a Number: the statement is for a counter below \<open>2 ^ 53\<close>, where \<^verbatim>\<open>++\<close>
  still counts.
\<close>

theorem call_without_transport:
  assumes "transport s = None" and "id_counter s < 2 ^ 53"
  shows "(let (p, s') = call_method name args s in
            promises s' ! p = Promise (Rejected (ErrorObject ''No Transport Initialized''))
            \<and> pending_callbacks s' = pending_callbacks s
            \<and> sent s' = sent s
            \<and> id_counter s' = id_counter s + 1)
         \<and> (let (p, s') = call_method_with_kwargs name kwargs s in
            promises s' ! p = Promise (Rejected (ErrorObject ''No Transport Initialized''))
            \<and> pending_callbacks s' = pending_callbacks s
            \<and> sent s' = sent s
            \<and> id_counter s' = id_counter s + 1)"
  using assms
  by (simp add: call_method_def call_method_uid_def call_method_with_kwargs_def
      call_method_with_kwargs_uid_def create_uid_def new_promise_def number_increment_def)

theorem call_without_transport_witness:
  "transport constructor = None \<and> id_counter constructor < 2 ^ 53
   \<and> (let (p, s') = call_method ''m'' [JNum 1] constructor in
        promises s' ! p = Promise (Rejected (ErrorObject ''No Transport Initialized''))
        \<and> pending_callbacks s' = pending_callbacks constructor
        \<and> sent s' = sent constructor
        \<and> id_counter s' = id_counter constructor + 1)
   \<and> (let (p, s') = call_method_with_kwargs ''m'' (Some (JObj [(''k'', JNum 1)])) constructor in
        promises s' ! p = Promise (Rejected (ErrorObject ''No Transport Initialized''))
        \<and> pending_callbacks s' = pending_callbacks constructor
        \<and> sent s' = sent constructor
        \<and> id_counter s' = id_counter constructor + 1)"
  using call_without_transport [of constructor "''m''" "[JNum 1]" "Some (JObj [(''k'', JNum 1)])"]
  by (simp add: constructor_def)

section \<open>Routing of inbound frames\<close>

lemma process_received_object: "process_received (JObj kvs) s = validate_and_dispatch (JObj kvs) s"
  by (simp add: process_received_def)

lemma conversion_raises_Some: "conversion_raises (Some v) \<longleftrightarrow> js_to_string v = None"
  by (simp add: conversion_raises_def property_key_def)

lemma conversion_raises_None: "\<not> conversion_raises None"
  by (simp add: conversion_raises_def property_key_def)

lemma loose_eq_converts: "loose_eq v lit num \<Longrightarrow> \<not> conversion_raises v"
proof (cases v)
  case None
  then show ?thesis
    by (simp add: conversion_raises_None)
next
  case (Some x)
  assume "loose_eq v lit num"
  with Some show ?thesis
    by (cases x) (auto simp add: conversion_raises_Some)
qed

lemma eq_version_converts: "eq_version v \<Longrightarrow> \<not> conversion_raises v"
  by (simp add: eq_version_def loose_eq_converts)

lemma dispatch_response:
  assumes "eq_version (map_of kvs ''jsonrpc'')"
    and "map_of kvs ''result'' \<noteq> None \<or> map_of kvs ''error'' \<noteq> None"
  shows "validate_and_dispatch (JObj kvs) s = handle_response kvs s"
  using assms by (auto simp add: validate_and_dispatch_def eq_version_converts)

lemma dispatch_request:
  assumes "eq_version (map_of kvs ''jsonrpc'')"
    and "map_of kvs ''result'' = None" and "map_of kvs ''error'' = None"
    and "map_of kvs ''method'' \<noteq> None"
  shows "validate_and_dispatch (JObj kvs) s = handle_request kvs s"
  using assms by (simp add: validate_and_dispatch_def eq_version_converts)

lemma property_key_Some: "property_key (Some v) = js_to_string v"
  by (simp add: property_key_def)

subsection \<open>The branches of \<^verbatim>\<open>_handle_response\<close>\<close>

lemma handle_response_result:
  assumes "non_null (map_of r ''result'') = Some v" and "non_null (map_of r ''id'') = Some rid"
    and "js_to_string rid = Some uid" and "pending_callbacks s uid = Some cb"
  shows "handle_response r s =
           (Normal, s\<lparr>promises := invoke_callback cb v None (promises s),
                      pending_callbacks := (pending_callbacks s)(uid := None)\<rparr>)"
  using assms by (simp add: handle_response_def lookup_own)

lemma handle_response_result_orphan:
  assumes "non_null (map_of r ''result'') = Some v" and "non_null (map_of r ''id'') = Some rid"
    and "js_to_string rid = Some uid" and "pending_callbacks s uid = None"
    and "uid \<notin> set object_prototype_keys"
  shows "handle_response r s =
           (Normal, log [LogText ''No Registered RPC Call for uid:'', LogValue (JObj r)] s)"
  using assms by (simp add: handle_response_def lookup_none)

lemma handle_response_result_raises:
  assumes "non_null (map_of r ''result'') = Some v" and "non_null (map_of r ''id'') = Some rid"
    and "js_to_string rid = None"
  shows "handle_response r s = (Abrupt type_error, s)"
  using assms by (simp add: handle_response_def)

lemma handle_response_else:
  assumes "non_null (map_of r ''result'') = None \<or> non_null (map_of r ''id'') = None"
  shows "handle_response r s = handle_response_error r s"
  using assms by (auto simp add: handle_response_def split: option.splits)

lemma handle_response_error_pending:
  assumes "non_null (map_of r ''error'') = Some e"
    and "property_key (map_of r ''id'') = Some uid" and "pending_callbacks s uid = Some cb"
  shows "handle_response_error r s =
           (Normal, s\<lparr>promises := invoke_callback cb JNull (Some e) (promises s),
                      pending_callbacks := (pending_callbacks s)(uid := None)\<rparr>)"
  using assms by (simp add: handle_response_error_def lookup_own)

lemma handle_response_error_orphan:
  assumes "non_null (map_of r ''error'') = Some e"
    and "property_key (map_of r ''id'') = Some uid" and "pending_callbacks s uid = None"
    and "uid \<notin> set object_prototype_keys"
  shows "handle_response_error r s =
           (Normal, log [LogText ''JSON-RPC error recieved'', LogValue e] s)"
  using assms by (simp add: handle_response_error_def lookup_none)

lemma handle_response_error_raises:
  assumes "non_null (map_of r ''error'') = Some e" and "property_key (map_of r ''id'') = None"
  shows "handle_response_error r s = (Abrupt type_error, s)"
  using assms by (simp add: handle_response_error_def)

lemma handle_response_error_invalid:
  assumes "non_null (map_of r ''error'') = None"
  shows "handle_response_error r s =
           (Normal, log [LogText ''Invalid JSON-RPC response'', LogValue (JObj r)] s)"
  using assms by (simp add: handle_response_error_def)

section \<open>A success response whose result is null\<close>

text \<open>
  Claim C9. An inbound response whose \<^verbatim>\<open>result\<close> is present and \<^verbatim>\<open>null\<close>, and which
  carries no error, is logged as an invalid response and nothing else happens: no promise
  is settled (the pending callback is not called), the pending entry stays, no frame is sent.
\<close>

theorem null_result_is_invalid:
  assumes "eq_version (map_of kvs ''jsonrpc'')"
    and "map_of kvs ''result'' = Some JNull"
    and "non_null (map_of kvs ''error'') = None"
  shows "process_received (JObj kvs) s =
           (Normal, log [LogText ''Invalid JSON-RPC response'', LogValue (JObj kvs)] s)
         \<and> promises (snd (process_received (JObj kvs) s)) = promises s
         \<and> pending_callbacks (snd (process_received (JObj kvs) s)) = pending_callbacks s
         \<and> sent (snd (process_received (JObj kvs) s)) = sent s"
proof -
  have "validate_and_dispatch (JObj kvs) s = handle_response kvs s"
    using assms by (simp add: dispatch_response)
  also have "\<dots> = handle_response_error kvs s"
    using assms by (simp add: handle_response_else)
  also have "\<dots> = (Normal, log [LogText ''Invalid JSON-RPC response'', LogValue (JObj kvs)] s)"
    using assms by (simp add: handle_response_error_invalid)
  finally show ?thesis
    by (simp add: process_received_object log_def)
qed

theorem null_result_is_invalid_witness:
  "(let kvs = [(''jsonrpc'', JStr ''2.0''), (''result'', JNull), (''id'', JStr ''0'')]
    in eq_version (map_of kvs ''jsonrpc'')
       \<and> map_of kvs ''result'' = Some JNull
       \<and> non_null (map_of kvs ''error'') = None
       \<and> pending_callbacks engine_with_call ''0'' = Some (CallCallback 0)
       \<and> process_received (JObj kvs) engine_with_call =
           (Normal, log [LogText ''Invalid JSON-RPC response'', LogValue (JObj kvs)] engine_with_call)
       \<and> promises (snd (process_received (JObj kvs) engine_with_call)) = [Promise Pending]
       \<and> pending_callbacks (snd (process_received (JObj kvs) engine_with_call)) ''0''
           = Some (CallCallback 0)
       \<and> sent (snd (process_received (JObj kvs) engine_with_call)) = sent engine_with_call)"
  using null_result_is_invalid
    [of "[(''jsonrpc'', JStr ''2.0''), (''result'', JNull), (''id'', JStr ''0'')]" engine_with_call]
  by (simp add: eq_version_def engine_with_call_eq log_def)

section \<open>A response that carries both a result and an error\<close>

text \<open>
  Claim C1, as the code has it. \<^verbatim>\<open>_handle_response\<close> tests the result first. For an inbound
  response with the \<^verbatim>\<open>2.0\<close> tag, an id that is not null, an error that is not null and a
  callback pending under that id (under \<open>uid\<close>, the property key the id converts to), the
  callback is called once and its entry removed; it is called with the error (the error
  path, which rejects the promise) only when \<^verbatim>\<open>result\<close> is absent or null. When \<^verbatim>\<open>result\<close>
  is not null, the callback is called with the result alone (the result path, which fulfils
  the promise) and the error is ignored.
\<close>

theorem error_after_result:
  assumes "eq_version (map_of kvs ''jsonrpc'')"
    and "non_null (map_of kvs ''id'') = Some rid"
    and "non_null (map_of kvs ''error'') = Some e"
    and "js_to_string rid = Some uid"
    and "pending_callbacks s uid = Some cb"
  shows "process_received (JObj kvs) s =
           (Normal,
            s\<lparr>promises :=
                (case non_null (map_of kvs ''result'') of
                   Some r \<Rightarrow> invoke_callback cb r None (promises s)
                 | None \<Rightarrow> invoke_callback cb JNull (Some e) (promises s)),
              pending_callbacks := (pending_callbacks s)(uid := None)\<rparr>)"
proof -
  have route: "process_received (JObj kvs) s = handle_response kvs s"
    using assms by (simp add: process_received_object dispatch_response non_null_Some)
  have key: "property_key (map_of kvs ''id'') = Some uid"
    using assms by (simp add: non_null_Some property_key_Some)
  show ?thesis
  proof (cases "non_null (map_of kvs ''result'')")
    case None
    then have "handle_response kvs s = handle_response_error kvs s"
      by (simp add: handle_response_else)
    with None assms key route show ?thesis
      by (simp add: handle_response_error_pending)
  next
    case (Some r)
    with assms route show ?thesis
      by (simp add: handle_response_result)
  qed
qed

theorem error_after_result_witness:
  "eq_version (Some (JStr ''2.0''))
   \<and> non_null (Some (JStr ''0'')) = Some (JStr ''0'')
   \<and> non_null (Some (JStr ''bad'')) = Some (JStr ''bad'')
   \<and> js_to_string (JStr ''0'') = Some ''0''
   \<and> pending_callbacks engine_with_call ''0'' = Some (CallCallback 0)
   \<and> process_received
     (JObj [(''jsonrpc'', JStr ''2.0''), (''error'', JStr ''bad''), (''id'', JStr ''0'')])
     engine_with_call
   = (Normal, engine_with_call\<lparr>promises := [Promise (Rejected (Reason (JStr ''bad'')))],
                               pending_callbacks := Map.empty\<rparr>)
   \<and> process_received
     (JObj [(''jsonrpc'', JStr ''2.0''), (''result'', JNum 1), (''error'', JStr ''bad''),
            (''id'', JStr ''0'')])
     engine_with_call
   = (Normal, engine_with_call\<lparr>promises := [Promise (Fulfilled (JNum 1))],
                               pending_callbacks := Map.empty\<rparr>)"
  using error_after_result
    [of "[(''jsonrpc'', JStr ''2.0''), (''error'', JStr ''bad''), (''id'', JStr ''0'')]"
        "JStr ''0''" "JStr ''bad''" "''0''" engine_with_call "CallCallback 0"]
    error_after_result
    [of "[(''jsonrpc'', JStr ''2.0''), (''result'', JNum 1), (''error'', JStr ''bad''),
          (''id'', JStr ''0'')]"
        "JStr ''0''" "JStr ''bad''" "''0''" engine_with_call "CallCallback 0"]
  by (simp add: eq_version_def engine_with_call_eq settle_def)

text \<open>
  Claim C1 as stated (the error path is taken whatever \<^verbatim>\<open>result\<close> holds) fails: for the
  outstanding call \<^verbatim>\<open>"0"\<close>, the frame
  \<^verbatim>\<open>{"jsonrpc":"2.0","result":1,"error":"bad","id":"0"}\<close> fulfils the promise with \<open>1\<close>; it
  does not reject it with the error.
\<close>

theorem error_precedence_counterexample:
  "promises (snd (process_received
     (JObj [(''jsonrpc'', JStr ''2.0''), (''result'', JNum 1), (''error'', JStr ''bad''),
            (''id'', JStr ''0'')])
     engine_with_call)) = [Promise (Fulfilled (JNum 1))]
   \<and> promises (snd (process_received
     (JObj [(''jsonrpc'', JStr ''2.0''), (''result'', JNum 1), (''error'', JStr ''bad''),
            (''id'', JStr ''0'')])
     engine_with_call)) \<noteq> [Promise (Rejected (Reason (JStr ''bad'')))]"
  by (simp add: process_received_def validate_and_dispatch_def conversion_raises_Some
      conversion_raises_None eq_version_def handle_response_def
      engine_with_call_eq lookup_def settle_def Let_def)

section \<open>Delivery of responses to pending callbacks\<close>

text \<open>
  Claim C4, as the code has it. Take an inbound frame with the \<^verbatim>\<open>2.0\<close> tag, and let \<open>uid\<close>
  be the property key its id converts to. If the frame's result and id are both not null and
  a callback is pending under \<open>uid\<close>, the callback is called once, with the result, and its
  entry is removed. Otherwise, if its error is not null and a callback is pending under
  \<open>uid\<close>, the callback is called once, with the error, and its entry is removed. In either
  case, if no callback is pending under \<open>uid\<close> and \<open>uid\<close> does not name a property that
  every object inherits, two lines are logged and nothing else happens: no exception, no
  frame sent, no promise settled. The statement is for an id that converts to a property
  key: the read of the table raises for an id that does not (an object with a property
  \<^verbatim>\<open>toString\<close> of its own, or an array that holds one). (A frame whose result is null and
  which has no error is none of these: claim C9.)
\<close>

theorem response_delivery:
  assumes "eq_version (map_of kvs ''jsonrpc'')"
  shows "(non_null (map_of kvs ''result'') = Some r \<and> non_null (map_of kvs ''id'') = Some rid
            \<and> js_to_string rid = Some uid \<and> pending_callbacks s uid = Some cb
          \<longrightarrow> process_received (JObj kvs) s =
                (Normal, s\<lparr>promises := invoke_callback cb r None (promises s),
                           pending_callbacks := (pending_callbacks s)(uid := None)\<rparr>))
       \<and> ((non_null (map_of kvs ''result'') = None \<or> non_null (map_of kvs ''id'') = None)
            \<and> non_null (map_of kvs ''error'') = Some e
            \<and> property_key (map_of kvs ''id'') = Some uid \<and> pending_callbacks s uid = Some cb
          \<longrightarrow> process_received (JObj kvs) s =
                (Normal, s\<lparr>promises := invoke_callback cb JNull (Some e) (promises s),
                           pending_callbacks := (pending_callbacks s)(uid := None)\<rparr>))
       \<and> (non_null (map_of kvs ''result'') = Some r \<and> non_null (map_of kvs ''id'') = Some rid
            \<and> js_to_string rid = Some uid \<and> pending_callbacks s uid = None
            \<and> uid \<notin> set object_prototype_keys
          \<longrightarrow> process_received (JObj kvs) s =
                (Normal, log [LogText ''No Registered RPC Call for uid:'', LogValue (JObj kvs)] s))
       \<and> ((non_null (map_of kvs ''result'') = None \<or> non_null (map_of kvs ''id'') = None)
            \<and> non_null (map_of kvs ''error'') = Some e
            \<and> property_key (map_of kvs ''id'') = Some uid \<and> pending_callbacks s uid = None
            \<and> uid \<notin> set object_prototype_keys
          \<longrightarrow> process_received (JObj kvs) s =
                (Normal, log [LogText ''JSON-RPC error recieved'', LogValue e] s))"
proof -
  have result: "process_received (JObj kvs) s = handle_response kvs s"
    if "non_null (map_of kvs ''result'') = Some r"
    using assms that by (simp add: process_received_object dispatch_response non_null_Some)
  have error: "process_received (JObj kvs) s = handle_response_error kvs s"
    if "non_null (map_of kvs ''result'') = None \<or> non_null (map_of kvs ''id'') = None"
      and "non_null (map_of kvs ''error'') = Some e"
    using assms that
    by (simp add: process_received_object dispatch_response non_null_Some handle_response_else)
  show ?thesis
    using result error
    by (simp add: handle_response_result handle_response_result_orphan
        handle_response_error_pending handle_response_error_orphan)
qed

theorem response_delivery_witness:
  "eq_version (Some (JStr ''2.0''))
   \<and> js_to_string (JStr ''0'') = Some ''0''
   \<and> pending_callbacks engine_with_call ''0'' = Some (CallCallback 0)
   \<and> js_to_string (JStr ''9'') = Some ''9''
   \<and> pending_callbacks engine_with_call ''9'' = None
   \<and> ''9'' \<notin> set object_prototype_keys
   \<and> property_key None = Some ''undefined''
   \<and> pending_callbacks engine_with_call ''undefined'' = None
   \<and> ''undefined'' \<notin> set object_prototype_keys
   \<and> process_received (JObj [(''jsonrpc'', JStr ''2.0''), (''result'', JNum 1), (''id'', JStr ''0'')])
     engine_with_call
   = (Normal, engine_with_call\<lparr>promises := [Promise (Fulfilled (JNum 1))],
                               pending_callbacks := Map.empty\<rparr>)
   \<and> process_received (JObj [(''jsonrpc'', JStr ''2.0''), (''error'', JStr ''bad''), (''id'', JStr ''0'')])
     engine_with_call
   = (Normal, engine_with_call\<lparr>promises := [Promise (Rejected (Reason (JStr ''bad'')))],
                               pending_callbacks := Map.empty\<rparr>)
   \<and> process_received (JObj [(''jsonrpc'', JStr ''2.0''), (''result'', JNum 1), (''id'', JStr ''9'')])
     engine_with_call
   = (Normal, log [LogText ''No Registered RPC Call for uid:'',
                   LogValue (JObj [(''jsonrpc'', JStr ''2.0''), (''result'', JNum 1), (''id'', JStr ''9'')])]
                engine_with_call)
   \<and> process_received (JObj [(''jsonrpc'', JStr ''2.0''), (''error'', JStr ''bad'')])
     engine_with_call
   = (Normal, log [LogText ''JSON-RPC error recieved'', LogValue (JStr ''bad'')] engine_with_call)"
  using response_delivery
    [of "[(''jsonrpc'', JStr ''2.0''), (''result'', JNum 1), (''id'', JStr ''0'')]"
        "JNum 1" "JStr ''0''" "''0''" engine_with_call "CallCallback 0"]
    response_delivery
    [of "[(''jsonrpc'', JStr ''2.0''), (''error'', JStr ''bad''), (''id'', JStr ''0'')]"
        _ _ "''0''" engine_with_call "CallCallback 0" "JStr ''bad''"]
    response_delivery
    [of "[(''jsonrpc'', JStr ''2.0''), (''result'', JNum 1), (''id'', JStr ''9'')]"
        "JNum 1" "JStr ''9''" "''9''" engine_with_call]
    response_delivery
    [of "[(''jsonrpc'', JStr ''2.0''), (''error'', JStr ''bad'')]"
        _ _ "''undefined''" engine_with_call _ "JStr ''bad''"]
  by (simp add: eq_version_def engine_with_call_eq settle_def property_key_def
      object_prototype_keys_def)

text \<open>
  Claim C4 as stated (every inbound response whose identifier has a pending completion has
  the callback called and the entry removed) fails: for the outstanding call \<^verbatim>\<open>"0"\<close>, the
  response \<^verbatim>\<open>{"jsonrpc":"2.0","result":null,"id":"0"}\<close> leaves the promise pending and the
  entry in place.
\<close>

theorem null_result_not_delivered_counterexample:
  "pending_callbacks engine_with_call ''0'' = Some (CallCallback 0)
   \<and> promises (snd (process_received
        (JObj [(''jsonrpc'', JStr ''2.0''), (''result'', JNull), (''id'', JStr ''0'')])
        engine_with_call)) = [Promise Pending]
   \<and> pending_callbacks (snd (process_received
        (JObj [(''jsonrpc'', JStr ''2.0''), (''result'', JNull), (''id'', JStr ''0'')])
        engine_with_call)) ''0'' = Some (CallCallback 0)"
  by (simp add: process_received_def validate_and_dispatch_def conversion_raises_Some
      conversion_raises_None eq_version_def handle_response_def
      handle_response_error_def engine_with_call_eq log_def)

text \<open>
  An id that does not convert to a property key is none of the cases of claim C4: the read
  of the table raises, whatever is pending, and nothing is logged. The frame
  \<^verbatim>\<open>{"jsonrpc":"2.0","result":1,"id":{"toString":0}}\<close> is one.
\<close>

lemma unconvertible_id_raises:
  assumes "eq_version (map_of kvs ''jsonrpc'')"
    and "non_null (map_of kvs ''id'') = Some rid" and "js_to_string rid = None"
    and "non_null (map_of kvs ''result'') = Some r \<or> non_null (map_of kvs ''error'') = Some e"
  shows "process_received (JObj kvs) s = (Abrupt type_error, s)"
proof -
  have route: "process_received (JObj kvs) s = handle_response kvs s"
    using assms by (auto simp add: process_received_object dispatch_response non_null_Some)
  have key: "property_key (map_of kvs ''id'') = None"
    using assms by (simp add: non_null_Some property_key_Some)
  show ?thesis
  proof (cases "non_null (map_of kvs ''result'')")
    case None
    with assms have "non_null (map_of kvs ''error'') = Some e"
      by simp
    with None key route show ?thesis
      by (simp add: handle_response_else handle_response_error_raises)
  next
    case (Some v)
    with assms route show ?thesis
      by (simp add: handle_response_result_raises)
  qed
qed

lemma unconvertible_id_example:
  "js_to_string (JObj [(''toString'', JNum 0)]) = None
   \<and> js_to_string (JArr [JObj [(''toString'', JNum 0)]]) = None
   \<and> process_received
        (JObj [(''jsonrpc'', JStr ''2.0''), (''result'', JNum 1),
               (''id'', JObj [(''toString'', JNum 0)])])
        engine_with_call
      = (Abrupt type_error, engine_with_call)"
  using unconvertible_id_raises
    [of "[(''jsonrpc'', JStr ''2.0''), (''result'', JNum 1), (''id'', JObj [(''toString'', JNum 0)])]"
        "JObj [(''toString'', JNum 0)]" "JNum 1" _ engine_with_call]
  by (simp add: eq_version_def)

section \<open>The branches of \<^verbatim>\<open>_handle_request\<close>\<close>

lemma try_block_invalid:
  "\<not> instanceof_Object v \<Longrightarrow> try_block m (Some v) = None"
  by (cases v) (simp_all add: try_block_def)

lemma minus_32602: "int_to_string (- 32602) = ''-32602''"
  by (simp add: int_to_string_def nat_to_string.simps digit_char_def)

lemma minus_31000: "int_to_string (- 31000) = ''-31000''"
  by (simp add: int_to_string_def nat_to_string.simps digit_char_def)

lemma handle_request_invalid_params:
  assumes "property_key (map_of r ''method'') = Some key" and "methods s key = Some f"
    and "map_of r ''params'' = Some v" and "\<not> instanceof_Object v"
  shows "handle_request r s =
           (Normal,
            send_response
              (Some (error_frame (JStr ''Invalid Parameters'') (- 32602)
                       (case map_of r ''id'' of Some i \<Rightarrow> i | None \<Rightarrow> JNull)))
              (log [LogText ''JSON-RPC Request Error: -32602 Invalid Parameters'', LogValue (JObj r)] s))"
  using assms
  by (simp add: handle_request_def lookup_own try_block_invalid build_error_def minus_32602)

lemma server_error_message_converts:
  assumes "js_to_string (server_error_message props) = Some text"
  shows "\<not> conversion_raises (map_of props ''message'')"
proof (cases "map_of props ''message''")
  case None
  then show ?thesis
    by (simp add: conversion_raises_None)
next
  case (Some m)
  show ?thesis
  proof
    assume "conversion_raises (map_of props ''message'')"
    then have raises: "conversion_raises (Some m)"
      using Some by simp
    then have "\<not> eq_empty_string (Some m)"
      using loose_eq_converts [of "Some m" "[]" "Some 0"] by (auto simp add: eq_empty_string_def)
    then have "server_error_message props = m"
      using Some by (simp add: server_error_message_def)
    with assms raises show False
      by (simp add: conversion_raises_Some)
  qed
qed

lemma handle_request_throws:
  assumes "property_key (map_of r ''method'') = Some key" and "methods s key = Some f"
    and "try_block (Own f) (map_of r ''params'') = Some (Throws (ThrownObject props))"
    and "js_to_string (server_error_message props) = Some text"
  shows "handle_request r s =
           (Normal,
            send_response
              (Some (error_frame (server_error_message props) (- 31000)
                       (case map_of r ''id'' of Some i \<Rightarrow> i | None \<Rightarrow> JNull)))
              (log [LogText (''JSON-RPC Request Error: -31000 '' @ text), LogValue (JObj r)] s))"
  using assms server_error_message_converts [OF assms(4)]
  by (simp add: handle_request_def lookup_own build_error_def minus_31000)

lemma handle_request_throws_unconvertible:
  assumes "property_key (map_of r ''method'') = Some key" and "methods s key = Some f"
    and "try_block (Own f) (map_of r ''params'') = Some (Throws (ThrownObject props))"
    and "conversion_raises (map_of props ''message'')"
  shows "handle_request r s = (Abrupt type_error, s)"
  using assms by (simp add: handle_request_def lookup_own)

lemma handle_request_returns:
  assumes "property_key (map_of r ''method'') = Some key" and "methods s key = Some f"
    and "try_block (Own f) (map_of r ''params'') = Some (Returns ret)"
  shows "handle_request r s =
           (Normal,
            (case map_of r ''id'' of
               Some rid \<Rightarrow>
                 send_response
                   (Some (JObj ([(''jsonrpc'', JStr ''2.0'')]
                                @ (case ret of Some v \<Rightarrow> [(''result'', v)] | None \<Rightarrow> [])
                                @ [(''id'', rid)]))) s
             | None \<Rightarrow> s))"
  using assms
  by (simp add: handle_request_def lookup_own send_response_def split: option.splits)

lemma handle_request_unregistered:
  assumes "property_key (map_of r ''method'') = Some key" and "methods s key = None"
    and "key \<notin> set object_prototype_keys"
  shows "handle_request r s = (Normal, log [LogText (''Invalid Method: '' @ key)] s)"
  using assms by (simp add: handle_request_def lookup_none)

lemma handle_request_raises:
  assumes "property_key (map_of r ''method'') = None"
  shows "handle_request r s = (Abrupt type_error, s)"
  using assms by (simp add: handle_request_def)

lemma sent_send_response:
  "transport s = Some t \<Longrightarrow> sent (send_response (Some r) s) = sent s @ [(t, r)]"
  by (simp add: send_response_def)

lemma sent_log: "sent (log entries s) = sent s"
  by (simp add: log_def)

lemma transport_log: "transport (log entries s) = transport s"
  by (simp add: log_def)

section \<open>Error frames in reply to a request\<close>

text \<open>
  Claim C2, as the code has it. For an inbound request frame whose method is registered
  (under \<open>key\<close>, the property key the method value converts to), with a transport bound:
  when the parameters are neither an array nor an object, the error frame with code
  \<open>-32602\<close> is sent, and when the method throws an object, the error frame with code
  \<open>-31000\<close> is sent, in both cases whether or not the inbound frame has an id; the id of the
  error frame is the inbound frame's id when it has one and \<^verbatim>\<open>null\<close> otherwise. (The one
  thrown object that gets no frame is one whose message does not convert to a string: the
  comparison of the \<^verbatim>\<open>catch\<close> raises.) When the inbound frame has no id and the method
  returns, nothing is sent.
\<close>

theorem dispatch_error_reply:
  assumes "eq_version (map_of kvs ''jsonrpc'')"
    and "map_of kvs ''result'' = None" and "map_of kvs ''error'' = None"
    and "map_of kvs ''method'' = Some name"
    and "js_to_string name = Some key"
    and "methods s key = Some f"
    and "transport s = Some t"
  shows "(\<not> instanceof_Object v \<and> map_of kvs ''params'' = Some v
          \<longrightarrow> sent (snd (process_received (JObj kvs) s)) =
                sent s @ [(t, JObj [(''jsonrpc'', JStr ''2.0''),
                                    (''error'', JObj [(''message'', JStr ''Invalid Parameters''),
                                                      (''code'', JNum (- 32602))]),
                                    (''id'', (case map_of kvs ''id'' of Some i \<Rightarrow> i | None \<Rightarrow> JNull))])])
       \<and> (try_block (Own f) (map_of kvs ''params'') = Some (Throws (ThrownObject props))
          \<longrightarrow> sent (snd (process_received (JObj kvs) s)) =
                (if conversion_raises (map_of props ''message'') then sent s
                 else sent s @ [(t, JObj [(''jsonrpc'', JStr ''2.0''),
                                    (''error'', JObj [(''message'', server_error_message props),
                                                      (''code'', JNum (- 31000))]),
                                    (''id'', (case map_of kvs ''id'' of Some i \<Rightarrow> i | None \<Rightarrow> JNull))])]))
       \<and> (try_block (Own f) (map_of kvs ''params'') = Some (Returns ret) \<and> map_of kvs ''id'' = None
          \<longrightarrow> sent (snd (process_received (JObj kvs) s)) = sent s)"
proof -
  have route: "process_received (JObj kvs) s = handle_request kvs s"
    using assms by (simp add: process_received_object dispatch_request)
  have key: "property_key (map_of kvs ''method'') = Some key"
    using assms by (simp add: property_key_Some)
  note found = key assms(6)
  have invalid: "sent (snd (handle_request kvs s)) =
      sent s @ [(t, JObj [(''jsonrpc'', JStr ''2.0''),
                          (''error'', JObj [(''message'', JStr ''Invalid Parameters''),
                                            (''code'', JNum (- 32602))]),
                          (''id'', (case map_of kvs ''id'' of Some i \<Rightarrow> i | None \<Rightarrow> JNull))])]"
    if "\<not> instanceof_Object v" and "map_of kvs ''params'' = Some v"
    using that assms(7)
    by (simp add: handle_request_invalid_params [OF found] sent_send_response sent_log
        transport_log error_frame_def)
  have throws: "sent (snd (handle_request kvs s)) =
      (if conversion_raises (map_of props ''message'') then sent s
       else sent s @ [(t, JObj [(''jsonrpc'', JStr ''2.0''),
                          (''error'', JObj [(''message'', server_error_message props),
                                            (''code'', JNum (- 31000))]),
                          (''id'', (case map_of kvs ''id'' of Some i \<Rightarrow> i | None \<Rightarrow> JNull))])])"
    if thrown: "try_block (Own f) (map_of kvs ''params'') = Some (Throws (ThrownObject props))"
  proof (cases "conversion_raises (map_of props ''message'')")
    case True
    then show ?thesis
      by (simp add: handle_request_throws_unconvertible [OF found thrown])
  next
    case False
    have "js_to_string (server_error_message props) \<noteq> None"
    proof (cases "map_of props ''message''")
      case None
      then show ?thesis
        by (simp add: server_error_message_def)
    next
      case (Some m)
      with False show ?thesis
        by (simp add: server_error_message_def conversion_raises_Some)
    qed
    then obtain rendered where "js_to_string (server_error_message props) = Some rendered"
      by auto
    with False assms(7) show ?thesis
      by (simp add: handle_request_throws [OF found thrown] sent_send_response sent_log
          transport_log error_frame_def)
  qed
  have returns: "sent (snd (handle_request kvs s)) = sent s"
    if "try_block (Own f) (map_of kvs ''params'') = Some (Returns ret)" and "map_of kvs ''id'' = None"
    using that by (simp add: handle_request_returns [OF found])
  show ?thesis
    using invalid throws returns by (simp add: route)
qed

theorem dispatch_error_reply_witness:
  "eq_version (Some (JStr ''2.0''))
   \<and> js_to_string (JStr ''echo'') = Some ''echo''
   \<and> js_to_string (JStr ''boom'') = Some ''boom''
   \<and> methods engine_with_methods ''echo'' \<noteq> None
   \<and> methods engine_with_methods ''boom'' \<noteq> None
   \<and> transport engine_with_methods = Some 0
   \<and> \<not> instanceof_Object (JNum 5)
   \<and> \<not> conversion_raises (Some (JStr ''boom''))
   \<and> sent (snd (process_received
      (JObj [(''jsonrpc'', JStr ''2.0''), (''method'', JStr ''echo''), (''params'', JNum 5)])
      engine_with_methods))
   = [(0, JObj [(''jsonrpc'', JStr ''2.0''),
                (''error'', JObj [(''message'', JStr ''Invalid Parameters''), (''code'', JNum (- 32602))]),
                (''id'', JNull)])]
   \<and> sent (snd (process_received
      (JObj [(''jsonrpc'', JStr ''2.0''), (''method'', JStr ''boom''), (''id'', JStr ''7'')])
      engine_with_methods))
   = [(0, JObj [(''jsonrpc'', JStr ''2.0''),
                (''error'', JObj [(''message'', JStr ''boom''), (''code'', JNum (- 31000))]),
                (''id'', JStr ''7'')])]
   \<and> sent (snd (process_received
      (JObj [(''jsonrpc'', JStr ''2.0''), (''method'', JStr ''echo''), (''params'', JArr [JNum 5])])
      engine_with_methods))
   = []"
  using dispatch_error_reply
    [of "[(''jsonrpc'', JStr ''2.0''), (''method'', JStr ''echo''), (''params'', JNum 5)]"
        "JStr ''echo''" "''echo''" engine_with_methods
        "\<lambda>args. Returns (case args of [] \<Rightarrow> None | v # vs \<Rightarrow> Some v)"
        0 "JNum 5"]
    dispatch_error_reply
    [of "[(''jsonrpc'', JStr ''2.0''), (''method'', JStr ''boom''), (''id'', JStr ''7'')]"
        "JStr ''boom''" "''boom''" engine_with_methods
        "\<lambda>args. Throws (ThrownObject [(''message'', JStr ''boom'')])"
        0 _ "[(''message'', JStr ''boom'')]"]
    dispatch_error_reply
    [of "[(''jsonrpc'', JStr ''2.0''), (''method'', JStr ''echo''), (''params'', JArr [JNum 5])]"
        "JStr ''echo''" "''echo''" engine_with_methods
        "\<lambda>args. Returns (case args of [] \<Rightarrow> None | v # vs \<Rightarrow> Some v)"
        0 _ _ "Some (JNum 5)"]
  by (simp add: eq_version_def engine_with_methods_eq example_methods_def try_block_def
      server_error_message_def eq_empty_string_def conversion_raises_Some)

text \<open>
  Claim C2 as stated (an error frame is sent only if the inbound frame carried an id; a
  notification gets no frame of any kind) fails: the notifications
  \<^verbatim>\<open>{"jsonrpc":"2.0","method":"echo","params":5}\<close> and \<^verbatim>\<open>{"jsonrpc":"2.0","method":"boom"}\<close>,
  which have no id, are each answered with an error frame whose id is \<^verbatim>\<open>null\<close>.
\<close>

theorem notification_error_reply_counterexample:
  "map_of [(''jsonrpc'', JStr ''2.0''), (''method'', JStr ''echo''), (''params'', JNum 5)] ''id'' = None
   \<and> sent (snd (process_received
      (JObj [(''jsonrpc'', JStr ''2.0''), (''method'', JStr ''echo''), (''params'', JNum 5)])
      engine_with_methods))
   = [(0, JObj [(''jsonrpc'', JStr ''2.0''),
                (''error'', JObj [(''message'', JStr ''Invalid Parameters''), (''code'', JNum (- 32602))]),
                (''id'', JNull)])]
   \<and> sent (snd (process_received
      (JObj [(''jsonrpc'', JStr ''2.0''), (''method'', JStr ''boom'')])
      engine_with_methods))
   = [(0, JObj [(''jsonrpc'', JStr ''2.0''),
                (''error'', JObj [(''message'', JStr ''boom''), (''code'', JNum (- 31000))]),
                (''id'', JNull)])]"
  by (simp add: process_received_def validate_and_dispatch_def conversion_raises_Some
      conversion_raises_None eq_version_def handle_request_def
      engine_with_methods_eq example_methods_def lookup_def property_key_def try_block_def
      build_error_def error_frame_def send_response_def log_def server_error_message_def
      eq_empty_string_def)

section \<open>A registered method that throws\<close>

text \<open>
  Claim C7, as the code has it. Take an inbound request frame with an id whose registered
  method, called with the frame's parameters, throws an object, the message of which (if
  it has one) converts to a string. The error is logged and the reply is the error frame
  with code \<open>-31000\<close> and the request's id. With a transport bound, exactly that one frame
  is sent; with no transport bound, nothing is sent; nothing else changes. The message of
  the frame is the thrown object's message when it has one that is not loosely equal to the
  empty string (\<^verbatim>\<open>!= ""\<close>), and \<^verbatim>\<open>"Server Error"\<close> otherwise. So a non-empty string,
  \<^verbatim>\<open>null\<close>, \<^verbatim>\<open>true\<close>, a number other than \<open>0\<close>, an object, and an array that does not
  convert to the empty string are sent as they are; a missing message, \<^verbatim>\<open>""\<close>, \<open>0\<close>,
  \<^verbatim>\<open>false\<close>, and an array that converts to the empty string (such as \<^verbatim>\<open>[]\<close> and
  \<^verbatim>\<open>[null]\<close>) give \<^verbatim>\<open>"Server Error"\<close>.
\<close>

theorem thrown_error_reply:
  assumes "eq_version (map_of kvs ''jsonrpc'')"
    and "map_of kvs ''result'' = None" and "map_of kvs ''error'' = None"
    and "map_of kvs ''method'' = Some name"
    and "map_of kvs ''id'' = Some rid"
    and "js_to_string name = Some key"
    and "methods s key = Some f"
    and "try_block (Own f) (map_of kvs ''params'') = Some (Throws (ThrownObject props))"
    and "js_to_string (server_error_message props) = Some text"
  shows "(transport s = Some t \<longrightarrow>
            process_received (JObj kvs) s =
              (Normal,
               s\<lparr>sent := sent s @
                    [(t, JObj [(''jsonrpc'', JStr ''2.0''),
                               (''error'', JObj [(''message'', server_error_message props),
                                                 (''code'', JNum (- 31000))]),
                               (''id'', rid)])],
                 console := console s @
                    [LogText (''JSON-RPC Request Error: -31000 '' @ text), LogValue (JObj kvs)]\<rparr>))
         \<and> (transport s = None \<longrightarrow>
            process_received (JObj kvs) s =
              (Normal,
               s\<lparr>console := console s @
                    [LogText (''JSON-RPC Request Error: -31000 '' @ text), LogValue (JObj kvs)]\<rparr>))
         \<and> (map_of props ''message'' = None
              \<longrightarrow> server_error_message props = JStr ''Server Error'')
         \<and> (map_of props ''message'' = Some (JStr str)
              \<longrightarrow> server_error_message props = (if str = [] then JStr ''Server Error'' else JStr str))
         \<and> (map_of props ''message'' = Some (JNum n)
              \<longrightarrow> server_error_message props = (if n = 0 then JStr ''Server Error'' else JNum n))
         \<and> (map_of props ''message'' = Some (JBool b)
              \<longrightarrow> server_error_message props = (if b then JBool True else JStr ''Server Error''))
         \<and> (map_of props ''message'' = Some JNull
              \<longrightarrow> server_error_message props = JNull)
         \<and> (map_of props ''message'' = Some (JObj members)
              \<longrightarrow> server_error_message props = JObj members)
         \<and> (map_of props ''message'' = Some (JArr xs)
              \<longrightarrow> server_error_message props =
                    (if js_to_string (JArr xs) = Some [] then JStr ''Server Error'' else JArr xs))"
proof -
  have route: "process_received (JObj kvs) s = handle_request kvs s"
    using assms by (simp add: process_received_object dispatch_request)
  have key: "property_key (map_of kvs ''method'') = Some key"
    using assms by (simp add: property_key_Some)
  have reply: "handle_request kvs s =
      (Normal,
       send_response
         (Some (error_frame (server_error_message props) (- 31000) rid))
         (log [LogText (''JSON-RPC Request Error: -31000 '' @ text), LogValue (JObj kvs)] s))"
    using handle_request_throws [OF key assms(7) assms(8) assms(9)] assms(5) by simp
  have bound: "handle_request kvs s =
      (Normal,
       s\<lparr>sent := sent s @
            [(t, JObj [(''jsonrpc'', JStr ''2.0''),
                       (''error'', JObj [(''message'', server_error_message props),
                                         (''code'', JNum (- 31000))]),
                       (''id'', rid)])],
         console := console s @
            [LogText (''JSON-RPC Request Error: -31000 '' @ text), LogValue (JObj kvs)]\<rparr>)"
    if "transport s = Some t"
    using that by (simp add: reply send_response_def log_def error_frame_def)
  have unbound: "handle_request kvs s =
      (Normal,
       s\<lparr>console := console s @
            [LogText (''JSON-RPC Request Error: -31000 '' @ text), LogValue (JObj kvs)]\<rparr>)"
    if "transport s = None"
    using that by (simp add: reply send_response_def log_def)
  have absent: "server_error_message props = JStr ''Server Error''"
    if "map_of props ''message'' = None"
    using that by (simp add: server_error_message_def)
  have string: "server_error_message props = (if str = [] then JStr ''Server Error'' else JStr str)"
    if "map_of props ''message'' = Some (JStr str)"
    using that by (simp add: server_error_message_def eq_empty_string_def)
  have number: "server_error_message props = (if n = 0 then JStr ''Server Error'' else JNum n)"
    if "map_of props ''message'' = Some (JNum n)"
    using that by (simp add: server_error_message_def eq_empty_string_def signed_eq_0_iff)
  have boolean: "server_error_message props = (if b then JBool True else JStr ''Server Error'')"
    if "map_of props ''message'' = Some (JBool b)"
    using that by (simp add: server_error_message_def eq_empty_string_def)
  have null: "server_error_message props = JNull"
    if "map_of props ''message'' = Some JNull"
    using that by (simp add: server_error_message_def eq_empty_string_def)
  have object: "server_error_message props = JObj members"
    if "map_of props ''message'' = Some (JObj members)"
    using that by (simp add: server_error_message_def eq_empty_string_def)
  have array: "server_error_message props =
      (if js_to_string (JArr xs) = Some [] then JStr ''Server Error'' else JArr xs)"
    if "map_of props ''message'' = Some (JArr xs)"
    using that by (simp add: server_error_message_def eq_empty_string_def del: js_to_string.simps)
  show ?thesis
    unfolding route
    using bound unbound absent string number boolean null object array by blast
qed

theorem thrown_error_reply_witness:
  "eq_version (Some (JStr ''2.0''))
   \<and> js_to_string (JStr ''boom'') = Some ''boom''
   \<and> js_to_string (JStr ''fail'') = Some ''fail''
   \<and> js_to_string (JStr ''thrower'') = Some ''thrower''
   \<and> methods engine_with_methods ''boom'' \<noteq> None
   \<and> methods engine_with_methods ''fail'' \<noteq> None
   \<and> methods engine_without_transport ''boom'' \<noteq> None
   \<and> methods (engine_with_thrower (JNum 0)) ''thrower'' \<noteq> None
   \<and> transport engine_with_methods = Some 0
   \<and> transport engine_without_transport = None
   \<and> transport (engine_with_thrower (JNum 0)) = Some 0
   \<and> process_received
      (JObj [(''jsonrpc'', JStr ''2.0''), (''method'', JStr ''boom''), (''id'', JStr ''7'')])
      engine_with_methods
   = (Normal,
      engine_with_methods
        \<lparr>sent := [(0, JObj [(''jsonrpc'', JStr ''2.0''),
                            (''error'', JObj [(''message'', JStr ''boom''), (''code'', JNum (- 31000))]),
                            (''id'', JStr ''7'')])],
         console := [LogText ''JSON-RPC Request Error: -31000 boom'',
                     LogValue (JObj [(''jsonrpc'', JStr ''2.0''), (''method'', JStr ''boom''),
                                     (''id'', JStr ''7'')])]\<rparr>)
   \<and> process_received
      (JObj [(''jsonrpc'', JStr ''2.0''), (''method'', JStr ''fail''), (''id'', JStr ''8'')])
      engine_with_methods
   = (Normal,
      engine_with_methods
        \<lparr>sent := [(0, JObj [(''jsonrpc'', JStr ''2.0''),
                            (''error'', JObj [(''message'', JStr ''Server Error''),
                                              (''code'', JNum (- 31000))]),
                            (''id'', JStr ''8'')])],
         console := [LogText ''JSON-RPC Request Error: -31000 Server Error'',
                     LogValue (JObj [(''jsonrpc'', JStr ''2.0''), (''method'', JStr ''fail''),
                                     (''id'', JStr ''8'')])]\<rparr>)
   \<and> process_received
      (JObj [(''jsonrpc'', JStr ''2.0''), (''method'', JStr ''boom''), (''id'', JStr ''7'')])
      engine_without_transport
   = (Normal,
      engine_without_transport
        \<lparr>console := [LogText ''JSON-RPC Request Error: -31000 boom'',
                     LogValue (JObj [(''jsonrpc'', JStr ''2.0''), (''method'', JStr ''boom''),
                                     (''id'', JStr ''7'')])]\<rparr>)
   \<and> process_received
      (JObj [(''jsonrpc'', JStr ''2.0''), (''method'', JStr ''thrower''), (''id'', JStr ''9'')])
      (engine_with_thrower (JNum 0))
   = (Normal,
      engine_with_thrower (JNum 0)
        \<lparr>sent := [(0, JObj [(''jsonrpc'', JStr ''2.0''),
                            (''error'', JObj [(''message'', JStr ''Server Error''),
                                              (''code'', JNum (- 31000))]),
                            (''id'', JStr ''9'')])],
         console := [LogText ''JSON-RPC Request Error: -31000 Server Error'',
                     LogValue (JObj [(''jsonrpc'', JStr ''2.0''), (''method'', JStr ''thrower''),
                                     (''id'', JStr ''9'')])]\<rparr>)
   \<and> server_error_message [(''message'', JBool False)] = JStr ''Server Error''
   \<and> server_error_message [(''message'', JArr [])] = JStr ''Server Error''
   \<and> server_error_message [(''message'', JArr [JNull])] = JStr ''Server Error''
   \<and> server_error_message [(''message'', JNull)] = JNull
   \<and> server_error_message [(''message'', JNum 7)] = JNum 7"
proof -
  have bound: "process_received
      (JObj [(''jsonrpc'', JStr ''2.0''), (''method'', JStr ''boom''), (''id'', JStr ''7'')])
      engine_with_methods
   = (Normal,
      engine_with_methods
        \<lparr>sent := [(0, JObj [(''jsonrpc'', JStr ''2.0''),
                            (''error'', JObj [(''message'', JStr ''boom''), (''code'', JNum (- 31000))]),
                            (''id'', JStr ''7'')])],
         console := [LogText ''JSON-RPC Request Error: -31000 boom'',
                     LogValue (JObj [(''jsonrpc'', JStr ''2.0''), (''method'', JStr ''boom''),
                                     (''id'', JStr ''7'')])]\<rparr>)"
    using thrown_error_reply
      [of "[(''jsonrpc'', JStr ''2.0''), (''method'', JStr ''boom''), (''id'', JStr ''7'')]"
          "JStr ''boom''" "JStr ''7''" "''boom''" engine_with_methods
          "\<lambda>args. Throws (ThrownObject [(''message'', JStr ''boom'')])"
          "[(''message'', JStr ''boom'')]" "''boom''" 0 "''boom''"]
    by (simp add: eq_version_def engine_with_methods_eq example_methods_def try_block_def
        server_error_message_def eq_empty_string_def)
  have empty: "process_received
      (JObj [(''jsonrpc'', JStr ''2.0''), (''method'', JStr ''fail''), (''id'', JStr ''8'')])
      engine_with_methods
   = (Normal,
      engine_with_methods
        \<lparr>sent := [(0, JObj [(''jsonrpc'', JStr ''2.0''),
                            (''error'', JObj [(''message'', JStr ''Server Error''),
                                              (''code'', JNum (- 31000))]),
                            (''id'', JStr ''8'')])],
         console := [LogText ''JSON-RPC Request Error: -31000 Server Error'',
                     LogValue (JObj [(''jsonrpc'', JStr ''2.0''), (''method'', JStr ''fail''),
                                     (''id'', JStr ''8'')])]\<rparr>)"
    using thrown_error_reply
      [of "[(''jsonrpc'', JStr ''2.0''), (''method'', JStr ''fail''), (''id'', JStr ''8'')]"
          "JStr ''fail''" "JStr ''8''" "''fail''" engine_with_methods
          "\<lambda>args. Throws (ThrownObject [(''message'', JStr [])])"
          "[(''message'', JStr [])]" "''Server Error''" 0 "[]"]
    by (simp add: eq_version_def engine_with_methods_eq example_methods_def try_block_def
        server_error_message_def eq_empty_string_def)
  have unbound: "process_received
      (JObj [(''jsonrpc'', JStr ''2.0''), (''method'', JStr ''boom''), (''id'', JStr ''7'')])
      engine_without_transport
   = (Normal,
      engine_without_transport
        \<lparr>console := [LogText ''JSON-RPC Request Error: -31000 boom'',
                     LogValue (JObj [(''jsonrpc'', JStr ''2.0''), (''method'', JStr ''boom''),
                                     (''id'', JStr ''7'')])]\<rparr>)"
    using thrown_error_reply
      [of "[(''jsonrpc'', JStr ''2.0''), (''method'', JStr ''boom''), (''id'', JStr ''7'')]"
          "JStr ''boom''" "JStr ''7''" "''boom''" engine_without_transport
          "\<lambda>args. Throws (ThrownObject [(''message'', JStr ''boom'')])"
          "[(''message'', JStr ''boom'')]" "''boom''" 0 "''boom''"]
    by (simp add: eq_version_def engine_without_transport_eq example_methods_def try_block_def
        server_error_message_def eq_empty_string_def)
  have zero: "process_received
      (JObj [(''jsonrpc'', JStr ''2.0''), (''method'', JStr ''thrower''), (''id'', JStr ''9'')])
      (engine_with_thrower (JNum 0))
   = (Normal,
      engine_with_thrower (JNum 0)
        \<lparr>sent := [(0, JObj [(''jsonrpc'', JStr ''2.0''),
                            (''error'', JObj [(''message'', JStr ''Server Error''),
                                              (''code'', JNum (- 31000))]),
                            (''id'', JStr ''9'')])],
         console := [LogText ''JSON-RPC Request Error: -31000 Server Error'',
                     LogValue (JObj [(''jsonrpc'', JStr ''2.0''), (''method'', JStr ''thrower''),
                                     (''id'', JStr ''9'')])]\<rparr>)"
    using thrown_error_reply
      [of "[(''jsonrpc'', JStr ''2.0''), (''method'', JStr ''thrower''), (''id'', JStr ''9'')]"
          "JStr ''thrower''" "JStr ''9''" "''thrower''" "engine_with_thrower (JNum 0)"
          "\<lambda>args. Throws (ThrownObject [(''message'', JNum 0)])"
          "[(''message'', JNum 0)]" "''Server Error''" 0 _ 0]
    by (simp add: eq_version_def engine_with_thrower_def engine_with_transport_eq try_block_def
        server_error_message_def eq_empty_string_def)
  have false: "server_error_message [(''message'', JBool False)] = JStr ''Server Error''"
    using thrown_error_reply
      [of "[(''jsonrpc'', JStr ''2.0''), (''method'', JStr ''thrower''), (''id'', JStr ''9'')]"
          "JStr ''thrower''" "JStr ''9''" "''thrower''" "engine_with_thrower (JBool False)"
          "\<lambda>args. Throws (ThrownObject [(''message'', JBool False)])"
          "[(''message'', JBool False)]" "''Server Error''" 0 _ _ False]
    by (simp add: eq_version_def engine_with_thrower_def engine_with_transport_eq try_block_def
        server_error_message_def eq_empty_string_def)
  have no_elements: "server_error_message [(''message'', JArr [])] = JStr ''Server Error''"
    using thrown_error_reply
      [of "[(''jsonrpc'', JStr ''2.0''), (''method'', JStr ''thrower''), (''id'', JStr ''9'')]"
          "JStr ''thrower''" "JStr ''9''" "''thrower''" "engine_with_thrower (JArr [])"
          "\<lambda>args. Throws (ThrownObject [(''message'', JArr [])])"
          "[(''message'', JArr [])]" "''Server Error''" 0 _ _ _ _ "[]"]
    by (simp add: eq_version_def engine_with_thrower_def engine_with_transport_eq try_block_def
        server_error_message_def eq_empty_string_def)
  have null_element: "server_error_message [(''message'', JArr [JNull])] = JStr ''Server Error''"
    using thrown_error_reply
      [of "[(''jsonrpc'', JStr ''2.0''), (''method'', JStr ''thrower''), (''id'', JStr ''9'')]"
          "JStr ''thrower''" "JStr ''9''" "''thrower''" "engine_with_thrower (JArr [JNull])"
          "\<lambda>args. Throws (ThrownObject [(''message'', JArr [JNull])])"
          "[(''message'', JArr [JNull])]" "''Server Error''" 0 _ _ _ _ "[JNull]"]
    by (simp add: eq_version_def engine_with_thrower_def engine_with_transport_eq try_block_def
        server_error_message_def eq_empty_string_def)
  have null: "server_error_message [(''message'', JNull)] = JNull"
    using thrown_error_reply
      [of "[(''jsonrpc'', JStr ''2.0''), (''method'', JStr ''thrower''), (''id'', JStr ''9'')]"
          "JStr ''thrower''" "JStr ''9''" "''thrower''" "engine_with_thrower JNull"
          "\<lambda>args. Throws (ThrownObject [(''message'', JNull)])"
          "[(''message'', JNull)]" "''null''" 0]
    by (simp add: eq_version_def engine_with_thrower_def engine_with_transport_eq try_block_def
        server_error_message_def eq_empty_string_def)
  have seven: "server_error_message [(''message'', JNum 7)] = JNum 7"
    using thrown_error_reply
      [of "[(''jsonrpc'', JStr ''2.0''), (''method'', JStr ''thrower''), (''id'', JStr ''9'')]"
          "JStr ''thrower''" "JStr ''9''" "''thrower''" "engine_with_thrower (JNum 7)"
          "\<lambda>args. Throws (ThrownObject [(''message'', JNum 7)])"
          "[(''message'', JNum 7)]" "''7''" 0 _ 7]
    by (simp add: eq_version_def engine_with_thrower_def engine_with_transport_eq try_block_def
        server_error_message_def eq_empty_string_def int_to_string_def nat_to_string.simps
        digit_char_def)
  have given: "eq_version (Some (JStr ''2.0''))
      \<and> js_to_string (JStr ''boom'') = Some ''boom''
      \<and> js_to_string (JStr ''fail'') = Some ''fail''
      \<and> js_to_string (JStr ''thrower'') = Some ''thrower''
      \<and> methods engine_with_methods ''boom'' \<noteq> None
      \<and> methods engine_with_methods ''fail'' \<noteq> None
      \<and> methods engine_without_transport ''boom'' \<noteq> None
      \<and> methods (engine_with_thrower (JNum 0)) ''thrower'' \<noteq> None
      \<and> transport engine_with_methods = Some 0
      \<and> transport engine_without_transport = None
      \<and> transport (engine_with_thrower (JNum 0)) = Some 0"
    by (simp add: eq_version_def engine_with_methods_eq engine_without_transport_eq
        engine_with_thrower_def engine_with_transport_eq example_methods_def)
  from given bound empty unbound zero false no_elements null_element null seven
  show ?thesis
    by blast
qed

text \<open>
  Claim C7 as stated (for every such request exactly one error frame is sent) fails. The
  send is under \<^verbatim>\<open>this.transport != null\<close>: on an engine without a transport, which the
  source allows (\<^verbatim>\<open>process_received\<close> may be called directly), the request for \<^verbatim>\<open>boom\<close>
  sends nothing. And with a transport bound, a method that throws a primitive
  (\<^verbatim>\<open>throw "boom"\<close>) makes the \<^verbatim>\<open>catch\<close> itself raise: \<^verbatim>\<open>process_received\<close> ends with a
  \<^verbatim>\<open>TypeError\<close> and nothing is sent.
\<close>

theorem thrown_error_without_transport_counterexample:
  "transport engine_without_transport = None
   \<and> sent (snd (process_received
        (JObj [(''jsonrpc'', JStr ''2.0''), (''method'', JStr ''boom''), (''id'', JStr ''7'')])
        engine_without_transport)) = []
   \<and> transport engine_with_methods = Some 0
   \<and> process_received
        (JObj [(''jsonrpc'', JStr ''2.0''), (''method'', JStr ''raw''), (''id'', JStr ''7'')])
        engine_with_methods
      = (Abrupt type_error, engine_with_methods)"
  by (simp add: process_received_def validate_and_dispatch_def conversion_raises_Some
      conversion_raises_None eq_version_def handle_request_def
      engine_without_transport_eq engine_with_methods_eq example_methods_def lookup_def property_key_def
      try_block_def build_error_def error_frame_def send_response_def log_def
      server_error_message_def eq_empty_string_def)

section \<open>A method name that is not registered\<close>

text \<open>
  Claim C8 at the inbound request \<^verbatim>\<open>{"jsonrpc":"2.0","method":"toString","id":"7"}\<close> on an
  engine with a transport and no registered method. The claim says nothing is sent. The
  code reads \<^verbatim>\<open>this.methods["toString"]\<close>, finds the function every object inherits, calls
  it and sends its result as the response.
\<close>

theorem inherited_method_is_dispatched:
  "methods engine_with_transport ''toString'' = None
   \<and> process_received
      (JObj [(''jsonrpc'', JStr ''2.0''), (''method'', JStr ''toString''), (''id'', JStr ''7'')])
      engine_with_transport
   = (Normal,
      engine_with_transport
        \<lparr>sent := [(0, JObj [(''jsonrpc'', JStr ''2.0''), (''result'', JStr ''[object Undefined]''),
                            (''id'', JStr ''7'')])]\<rparr>)"
  by (simp add: process_received_def validate_and_dispatch_def conversion_raises_Some
      conversion_raises_None eq_version_def handle_request_def
      engine_with_transport_eq lookup_def property_key_def try_block_def object_prototype_keys_def
      call_inherited_def send_response_def)

text \<open>
  For a method name that is neither registered nor inherited, the request is logged and
  nothing else happens, as claim C8 says.
\<close>

lemma unregistered_method_ignored:
  assumes "eq_version (map_of kvs ''jsonrpc'')"
    and "map_of kvs ''result'' = None" and "map_of kvs ''error'' = None"
    and "map_of kvs ''method'' = Some name"
    and "js_to_string name = Some key"
    and "methods s key = None"
    and "key \<notin> set object_prototype_keys"
  shows "process_received (JObj kvs) s = (Normal, log [LogText (''Invalid Method: '' @ key)] s)"
  using assms
  by (simp add: process_received_object dispatch_request handle_request_unregistered property_key_Some)

text \<open>
  A method value that does not convert to a property key makes the read of the table raise.
\<close>

lemma unconvertible_method_raises:
  assumes "eq_version (map_of kvs ''jsonrpc'')"
    and "map_of kvs ''result'' = None" and "map_of kvs ''error'' = None"
    and "map_of kvs ''method'' = Some name"
    and "js_to_string name = None"
  shows "process_received (JObj kvs) s = (Abrupt type_error, s)"
  using assms
  by (simp add: process_received_object dispatch_request handle_request_raises property_key_Some)

text \<open>
  The pending callbacks are read the same way: a response whose id names an inherited
  function is not logged as unmatched; the function is called, and \<^verbatim>\<open>valueOf\<close> throws.
\<close>

lemma inherited_callback_throws:
  "process_received
      (JObj [(''jsonrpc'', JStr ''2.0''), (''result'', JNum 1), (''id'', JStr ''valueOf'')])
      engine_with_transport
   = (Abrupt type_error, engine_with_transport)"
  by (simp add: process_received_def validate_and_dispatch_def conversion_raises_Some
      conversion_raises_None eq_version_def handle_response_def
      engine_with_transport_eq lookup_def object_prototype_keys_def call_inherited_def)

section \<open>The identifiers of calls\<close>

text \<open>Only the calls (and batches) touch the counter; inbound frames and notifications do not.\<close>

lemma id_counter_handle_response_error:
  "id_counter (snd (handle_response_error r s)) = id_counter s"
  by (simp add: handle_response_error_def log_def Let_def
      split: option.splits looked_up.splits outcome.splits)

lemma id_counter_handle_response: "id_counter (snd (handle_response r s)) = id_counter s"
  by (simp add: handle_response_def id_counter_handle_response_error log_def Let_def
      split: option.splits looked_up.splits outcome.splits)

lemma id_counter_handle_request: "id_counter (snd (handle_request r s)) = id_counter s"
  by (simp add: handle_request_def build_error_def send_response_def log_def Let_def
      split: option.splits outcome.splits thrown.splits)

lemma id_counter_validate_and_dispatch:
  "id_counter (snd (validate_and_dispatch d s)) = id_counter s"
  by (simp add: validate_and_dispatch_def id_counter_handle_response id_counter_handle_request
      log_def split: json.splits)

lemma id_counter_dispatch_each: "id_counter (snd (dispatch_each ds s)) = id_counter s"
proof (induction ds arbitrary: s)
  case Nil
  show ?case by simp
next
  case (Cons d ds)
  obtain c s1 where step: "validate_and_dispatch d s = (c, s1)"
    by (cases "validate_and_dispatch d s")
  then have "id_counter s1 = id_counter s"
    using id_counter_validate_and_dispatch [of d s] by simp
  with step Cons show ?case
    by (cases c) simp_all
qed

lemma id_counter_process_received: "id_counter (snd (process_received d s)) = id_counter s"
  by (simp add: process_received_def id_counter_dispatch_each id_counter_validate_and_dispatch
      split: json.splits)

lemma id_counter_notify: "id_counter (notify m args s) = id_counter s"
  by (simp add: notify_def split: option.splits)

lemma call_method_uid_counter:
  assumes "id_counter s < 2 ^ 53"
  shows "fst (call_method_uid m args s) = nat_to_string (id_counter s)"
    and "id_counter (snd (snd (call_method_uid m args s))) = id_counter s + 1"
  using assms
  by (simp_all add: call_method_uid_def create_uid_def new_promise_def number_increment_def
      split: option.splits)

lemma call_method_with_kwargs_uid_counter:
  assumes "id_counter s < 2 ^ 53"
  shows "fst (call_method_with_kwargs_uid m kwargs s) = nat_to_string (id_counter s)"
    and "id_counter (snd (snd (call_method_with_kwargs_uid m kwargs s))) = id_counter s + 1"
  using assms
  by (simp_all add: call_method_with_kwargs_uid_def create_uid_def new_promise_def
      number_increment_def split: option.splits)

lemma upt_first: "[c ..< c + Suc n] = c # [c + 1 ..< c + 1 + n]"
  by (subst upt_rec) simp

lemma assigned_uids_run:
  assumes "id_counter s + count_calls ops \<le> 2 ^ 53"
  shows "assigned_uids ops s = map nat_to_string [id_counter s ..< id_counter s + count_calls ops]"
  using assms
proof (induction ops s rule: run.induct)
  case (1 s)
  show ?case by (simp add: assigned_uids_def count_calls_def)
next
  case (2 method_name args ops s)
  obtain uid p s1 where step: "call_method_uid method_name args s = (uid, p, s1)"
    by (cases "call_method_uid method_name args s")
  have count: "count_calls (Call method_name args # ops) = Suc (count_calls ops)"
    by (simp add: count_calls_def)
  with 2(2) have bound: "id_counter s < 2 ^ 53"
    and rest: "id_counter s + 1 + count_calls ops \<le> 2 ^ 53"
    by simp_all
  from step bound have uid: "uid = nat_to_string (id_counter s)"
    and s1: "id_counter s1 = id_counter s + 1"
    using call_method_uid_counter [of s method_name args] by simp_all
  from rest s1
  have "assigned_uids ops s1 = map nat_to_string [id_counter s + 1 ..< id_counter s + 1 + count_calls ops]"
    using 2(1) [OF step [symmetric] refl] by simp
  moreover have "assigned_uids (Call method_name args # ops) s = uid # assigned_uids ops s1"
    using step by (simp add: assigned_uids_def split: prod.splits)
  ultimately show ?case
    unfolding count upt_first using uid by simp
next
  case (3 method_name kwargs ops s)
  obtain uid p s1 where step: "call_method_with_kwargs_uid method_name kwargs s = (uid, p, s1)"
    by (cases "call_method_with_kwargs_uid method_name kwargs s")
  have count: "count_calls (CallWithKwargs method_name kwargs # ops) = Suc (count_calls ops)"
    by (simp add: count_calls_def)
  with 3(2) have bound: "id_counter s < 2 ^ 53"
    and rest: "id_counter s + 1 + count_calls ops \<le> 2 ^ 53"
    by simp_all
  from step bound have uid: "uid = nat_to_string (id_counter s)"
    and s1: "id_counter s1 = id_counter s + 1"
    using call_method_with_kwargs_uid_counter [of s method_name kwargs] by simp_all
  from rest s1
  have "assigned_uids ops s1 = map nat_to_string [id_counter s + 1 ..< id_counter s + 1 + count_calls ops]"
    using 3(1) [OF step [symmetric] refl] by simp
  moreover have "assigned_uids (CallWithKwargs method_name kwargs # ops) s = uid # assigned_uids ops s1"
    using step by (simp add: assigned_uids_def split: prod.splits)
  ultimately show ?case
    unfolding count upt_first using uid by simp
next
  case (4 method_name args ops s)
  then show ?case
    by (simp add: assigned_uids_def count_calls_def id_counter_notify)
next
  case (5 rpc_data ops s)
  then show ?case
    by (simp add: assigned_uids_def count_calls_def id_counter_process_received)
qed

lemma string_to_nat_uids: "map string_to_nat (map nat_to_string ns) = ns"
  by (induction ns) (simp_all add: string_to_nat_nat_to_string)

text \<open>
  Claim C5. In a run of calls of both kinds, with notifications and inbound messages in
  between, the identifiers that the calls allocate are as many as the calls, pairwise
  distinct and, read as integers, strictly increasing; the first one is the decimal string
  of the counter at the start of the run, which is \<^verbatim>\<open>"0"\<close> for a new engine. The counter is
  a Number: the statement is for runs that keep it within \<open>2 ^ 53\<close>, where \<^verbatim>\<open>++\<close> still
  counts.
\<close>

theorem uids_distinct_increasing:
  assumes "id_counter s + count_calls ops \<le> 2 ^ 53"
  shows "length (assigned_uids ops s) = count_calls ops
         \<and> distinct (assigned_uids ops s)
         \<and> sorted_wrt (<) (map string_to_nat (assigned_uids ops s))
         \<and> (0 < count_calls ops \<longrightarrow> hd (assigned_uids ops s) = nat_to_string (id_counter s))
         \<and> (0 < count_calls ops \<and> id_counter s = 0 \<longrightarrow> hd (assigned_uids ops s) = ''0'')
         \<and> id_counter constructor = 0"
proof -
  let ?ns = "[id_counter s ..< id_counter s + count_calls ops]"
  have uids: "assigned_uids ops s = map nat_to_string ?ns"
    using assms by (rule assigned_uids_run)
  have "distinct (map string_to_nat (assigned_uids ops s))"
    unfolding uids string_to_nat_uids by simp
  then have "distinct (assigned_uids ops s)"
    by (simp add: distinct_map)
  moreover have "sorted_wrt (<) (map string_to_nat (assigned_uids ops s))"
    unfolding uids string_to_nat_uids by (rule sorted_wrt_upt)
  moreover have first: "hd (assigned_uids ops s) = nat_to_string (id_counter s)"
    if "0 < count_calls ops"
    using that by (simp add: uids hd_map upt_rec [of "id_counter s"])
  moreover have "hd (assigned_uids ops s) = ''0''" if "0 < count_calls ops" and "id_counter s = 0"
    using that first by (simp add: nat_to_string_zero)
  ultimately show ?thesis
    by (simp add: uids constructor_def)
qed

theorem uids_distinct_increasing_witness:
  "id_counter engine_with_transport
     + count_calls
         [Call ''a'' [],
          Receive (JObj [(''jsonrpc'', JStr ''2.0''), (''result'', JNum 1), (''id'', JStr ''0'')]),
          CallWithKwargs ''b'' (Some (JObj [(''k'', JNum 1)])), Notify ''n'' [], Call ''c'' [JNum 2]]
     \<le> 2 ^ 53
   \<and> assigned_uids
         [Call ''a'' [],
          Receive (JObj [(''jsonrpc'', JStr ''2.0''), (''result'', JNum 1), (''id'', JStr ''0'')]),
          CallWithKwargs ''b'' (Some (JObj [(''k'', JNum 1)])), Notify ''n'' [], Call ''c'' [JNum 2]]
         engine_with_transport
       = [''0'', ''1'', ''2'']
   \<and> distinct [''0'', ''1'', ''2'']
   \<and> sorted_wrt (<) (map string_to_nat [''0'', ''1'', ''2''])"
proof -
  let ?ops =
    "[Call ''a'' [],
      Receive (JObj [(''jsonrpc'', JStr ''2.0''), (''result'', JNum 1), (''id'', JStr ''0'')]),
      CallWithKwargs ''b'' (Some (JObj [(''k'', JNum 1)])), Notify ''n'' [], Call ''c'' [JNum 2]]"
  have count: "count_calls ?ops = 3"
    by (simp add: count_calls_def)
  have "[0 ..< 3] = [0, 1, 2 :: nat]"
    by code_simp
  then have uids: "assigned_uids ?ops engine_with_transport = map nat_to_string [0, 1, 2]"
    using assigned_uids_run [of engine_with_transport ?ops]
    by (simp add: count engine_with_transport_eq)
  then have eval: "assigned_uids ?ops engine_with_transport = [''0'', ''1'', ''2'']"
    by (simp add: nat_to_string.simps digit_char_def)
  have start: "id_counter engine_with_transport = 0"
    by (simp add: engine_with_transport_eq)
  show ?thesis
    using uids_distinct_increasing [of engine_with_transport ?ops]
    by (simp add: count eval start nat_to_string_zero string_to_nat_def digit_val_def)
qed

section \<open>The fields of a request frame\<close>

lemma params_of_request:
  "property (build_request method_name uid kwargs args) ''params'' =
     (case non_null kwargs of
        Some k \<Rightarrow> Some k
      | None \<Rightarrow> if args = [] then None else Some (JArr args))"
  by (simp add: property_def build_request_def split: option.splits)

lemma id_of_request:
  "property (build_request method_name uid kwargs args) ''id'' = map_option JStr uid"
  by (simp add: property_def build_request_def split: option.splits)

lemma sent_call_method:
  "transport s = Some t \<Longrightarrow>
   sent (snd (call_method method_name args s)) =
     sent s @ [(t, build_request method_name (Some (nat_to_string (id_counter s))) None args)]"
  by (simp add: call_method_def call_method_uid_def create_uid_def new_promise_def)

lemma sent_call_method_with_kwargs:
  "transport s = Some t \<Longrightarrow>
   sent (snd (call_method_with_kwargs method_name kwargs s)) =
     sent s @ [(t, build_request method_name (Some (nat_to_string (id_counter s))) kwargs [])]"
  by (simp add: call_method_with_kwargs_def call_method_with_kwargs_uid_def create_uid_def
      new_promise_def)

lemma sent_notify:
  "transport s = Some t \<Longrightarrow>
   sent (notify method_name args s) = sent s @ [(t, build_request method_name None None args)]"
  by (simp add: notify_def)

text \<open>
  Claim C6, as the code has it. A request frame has no \<^verbatim>\<open>params\<close> field when no positional
  argument is given and the keyword value is absent or null. Its \<^verbatim>\<open>params\<close> is never
  \<^verbatim>\<open>null\<close>, and never an empty array of positional arguments. A keyword value that is not
  null is sent as it is, whatever it holds. The frame has no \<^verbatim>\<open>id\<close> field when it is
  built without an identifier, as \<^verbatim>\<open>notify\<close> builds it, and the identifier as its \<^verbatim>\<open>id\<close>
  otherwise. These are the frames that \<^verbatim>\<open>call_method\<close>, \<^verbatim>\<open>call_method_with_kwargs\<close> and
  \<^verbatim>\<open>notify\<close> send.
\<close>

theorem request_fields:
  "(non_null kwargs = None \<and> args = []
      \<longrightarrow> property (build_request method_name uid kwargs args) ''params'' = None)
   \<and> property (build_request method_name uid kwargs args) ''params'' \<noteq> Some JNull
   \<and> (non_null kwargs = None
      \<longrightarrow> property (build_request method_name uid kwargs args) ''params'' \<noteq> Some (JArr []))
   \<and> (non_null kwargs = Some k
      \<longrightarrow> property (build_request method_name uid kwargs args) ''params'' = Some k)
   \<and> property (build_request method_name None kwargs args) ''id'' = None
   \<and> property (build_request method_name (Some u) kwargs args) ''id'' = Some (JStr u)
   \<and> (transport s = Some t
      \<longrightarrow> sent (snd (call_method method_name args s)) =
            sent s @ [(t, build_request method_name (Some (nat_to_string (id_counter s))) None args)]
        \<and> sent (snd (call_method_with_kwargs method_name kwargs s)) =
            sent s @ [(t, build_request method_name (Some (nat_to_string (id_counter s))) kwargs [])]
        \<and> sent (notify method_name args s) =
            sent s @ [(t, build_request method_name None None args)])"
proof -
  have "property (build_request method_name uid kwargs args) ''params'' \<noteq> Some JNull"
    by (auto simp add: params_of_request non_null_Some split: option.splits)
  then show ?thesis
    by (simp add: params_of_request id_of_request sent_call_method sent_call_method_with_kwargs
        sent_notify)
qed

theorem request_fields_witness:
  "property (build_request ''m'' (Some ''0'') None []) ''params'' = None
   \<and> property (build_request ''m'' (Some ''0'') (Some (JObj [(''k'', JNum 1)])) []) ''params''
       = Some (JObj [(''k'', JNum 1)])
   \<and> sent (snd (call_method ''m'' [] engine_with_transport)) =
       [(0, JObj [(''jsonrpc'', JStr ''2.0''), (''method'', JStr ''m''), (''id'', JStr ''0'')])]
   \<and> sent (snd (call_method_with_kwargs ''m'' (Some JNull) engine_with_transport)) =
       [(0, JObj [(''jsonrpc'', JStr ''2.0''), (''method'', JStr ''m''), (''id'', JStr ''0'')])]
   \<and> sent (notify ''m'' [] engine_with_transport) =
       [(0, JObj [(''jsonrpc'', JStr ''2.0''), (''method'', JStr ''m'')])]"
  using request_fields [of None "[]" "''m''" "Some ''0''" _ _ engine_with_transport 0]
    request_fields [of "Some (JObj [(''k'', JNum 1)])" "[]" "''m''" "Some ''0''" "JObj [(''k'', JNum 1)]"]
    request_fields [of "Some JNull" "[]" "''m''" _ _ _ engine_with_transport 0]
  by (simp add: engine_with_transport_eq nat_to_string_zero build_request_def)

text \<open>
  Claim C6 as stated (a request frame never contains \<^verbatim>\<open>params\<close> with an empty collection)
  fails: \<^verbatim>\<open>call_method_with_kwargs("m", {})\<close> sends
  \<^verbatim>\<open>{"jsonrpc":"2.0","method":"m","id":"0","params":{}}\<close>.
\<close>

theorem empty_kwargs_sent_counterexample:
  "sent (snd (call_method_with_kwargs ''m'' (Some (JObj [])) engine_with_transport)) =
     [(0, JObj [(''jsonrpc'', JStr ''2.0''), (''method'', JStr ''m''), (''id'', JStr ''0''),
                (''params'', JObj [])])]"
  by (simp add: call_method_with_kwargs_def call_method_with_kwargs_uid_def create_uid_def
      new_promise_def engine_with_transport_eq nat_to_string_zero build_request_def)

section \<open>A batch of two requests and a notification\<close>

text \<open>
  What \<^verbatim>\<open>send_batch_request\<close> does with the batch of three entries on an engine with a
  transport, and what the promise it returns becomes as responses arrive.
\<close>

lemma send_example_batch:
  assumes "transport s = Some t" and "id_counter s < 2 ^ 53"
  shows "send_batch_request example_batch s =
     (Inr (length (promises s) + 2),
      s\<lparr>id_counter := number_increment (id_counter s + 1),
        pending_callbacks :=
          (pending_callbacks s)
            (nat_to_string (id_counter s) \<mapsto> BatchCallback (length (promises s)) ''a'' 0,
             nat_to_string (id_counter s + 1) \<mapsto> BatchCallback (length (promises s) + 1) ''c'' 2),
        sent := sent s @
          [(t, JArr [JObj [(''jsonrpc'', JStr ''2.0''), (''method'', JStr ''a''),
                           (''id'', JStr (nat_to_string (id_counter s)))],
                     JObj [(''jsonrpc'', JStr ''2.0''), (''method'', JStr ''b'')],
                     JObj [(''jsonrpc'', JStr ''2.0''), (''method'', JStr ''c''),
                           (''id'', JStr (nat_to_string (id_counter s + 1)))]])],
        promises := promises s @
          [Promise Pending, Promise Pending,
           PromiseAll [length (promises s), length (promises s) + 1] Pending]\<rparr>)"
  using assms
  by (simp add: send_batch_request_def example_batch_def create_uid_def new_promise_def
      build_request_def number_increment_def promise_all_def fulfilled_value_def nth_append Let_def
      numeral_2_eq_2 [symmetric])

lemma deliver_result:
  assumes "r \<noteq> JNull" and "pending_callbacks x u = Some cb"
  shows "process_received (result_frame u r) x =
           (Normal, x\<lparr>promises := invoke_callback cb r None (promises x),
                      pending_callbacks := (pending_callbacks x)(u := None)\<rparr>)"
  using assms
  by (simp add: result_frame_def process_received_object dispatch_response eq_version_def
      handle_response_result [where v = r and rid = "JStr u"])

lemma deliver_error:
  assumes "e \<noteq> JNull" and "pending_callbacks x u = Some cb"
  shows "process_received (error_reply u e) x =
           (Normal, x\<lparr>promises := invoke_callback cb JNull (Some e) (promises x),
                      pending_callbacks := (pending_callbacks x)(u := None)\<rparr>)"
  using assms
  by (simp add: error_reply_def process_received_object dispatch_response eq_version_def
      handle_response_else handle_response_error_pending [where e = e] property_key_Some)

lemma uid_next_distinct: "nat_to_string (Suc n) \<noteq> nat_to_string n"
  using nat_to_string_inj [of "Suc n" n] by auto

lemmas batch_delivery =
  batch_outcome_def send_example_batch deliver_result deliver_error uid_next_distinct
  uid_next_distinct [symmetric] settle_def nth_append fulfilled_value_def

lemma batch_both_results:
  assumes "transport s = Some t" and "id_counter s < 2 ^ 53" and "r0 \<noteq> JNull" and "r2 \<noteq> JNull"
  shows "batch_outcome [result_frame (nat_to_string (id_counter s)) r0,
                        result_frame (nat_to_string (id_counter s + 1)) r2] s
         = Some (Fulfilled (JArr [batch_response ''a'' 0 ''result'' r0,
                                  batch_response ''c'' 2 ''result'' r2]))"
    and "batch_outcome [result_frame (nat_to_string (id_counter s + 1)) r2,
                        result_frame (nat_to_string (id_counter s)) r0] s
         = Some (Fulfilled (JArr [batch_response ''a'' 0 ''result'' r0,
                                  batch_response ''c'' 2 ''result'' r2]))"
  using assms by (simp_all add: batch_delivery)

lemma batch_unanswered:
  assumes "transport s = Some t" and "id_counter s < 2 ^ 53"
  shows "batch_outcome [] s = Some Pending"
  using assms by (simp add: batch_delivery)

lemma batch_one_result:
  assumes "transport s = Some t" and "id_counter s < 2 ^ 53" and "r \<noteq> JNull"
  shows "batch_outcome [result_frame (nat_to_string (id_counter s)) r] s = Some Pending"
    and "batch_outcome [result_frame (nat_to_string (id_counter s + 1)) r] s = Some Pending"
  using assms by (simp_all add: batch_delivery)

lemma batch_last_error:
  assumes "transport s = Some t" and "id_counter s < 2 ^ 53" and "e \<noteq> JNull"
  shows "batch_outcome [error_reply (nat_to_string (id_counter s + 1)) e] s
         = Some (Rejected (Reason (batch_response ''c'' 2 ''error'' e)))"
    and "r0 \<noteq> JNull \<Longrightarrow>
         batch_outcome [result_frame (nat_to_string (id_counter s)) r0,
                        error_reply (nat_to_string (id_counter s + 1)) e] s
         = Some (Rejected (Reason (batch_response ''c'' 2 ''error'' e)))"
    and "r0 \<noteq> JNull \<Longrightarrow>
         batch_outcome [error_reply (nat_to_string (id_counter s + 1)) e,
                        result_frame (nat_to_string (id_counter s)) r0] s
         = Some (Rejected (Reason (batch_response ''c'' 2 ''error'' e)))"
    and "e0 \<noteq> JNull \<Longrightarrow>
         batch_outcome [error_reply (nat_to_string (id_counter s + 1)) e,
                        error_reply (nat_to_string (id_counter s)) e0] s
         = Some (Rejected (Reason (batch_response ''c'' 2 ''error'' e)))"
  using assms by (simp_all add: batch_delivery)

lemma batch_first_error:
  assumes "transport s = Some t" and "id_counter s < 2 ^ 53" and "e0 \<noteq> JNull" and "e \<noteq> JNull"
  shows "batch_outcome [error_reply (nat_to_string (id_counter s)) e0,
                        error_reply (nat_to_string (id_counter s + 1)) e] s
         = Some (Rejected (Reason (batch_response ''a'' 0 ''error'' e0)))"
  using assms by (simp add: batch_delivery)

text \<open>
  Claim C3, as the code has it (the entries carry their kind in the field \<^verbatim>\<open>type\<close>). With
  a transport bound, \<^verbatim>\<open>send_batch_request\<close> on the batch of three sends one frame, an
  array of three entries of which the first and the third carry the two identifiers it
  allocates and the second none, and stores a callback for each of the two. The promise it
  returns is pending while no or only one success response has arrived, and is fulfilled,
  with the two results in the order of the entries, once both have arrived, in either order;
  no response to the notification is awaited. If the response to the third entry carries
  an error, the promise is rejected with \<^verbatim>\<open>{method:"c", index:2, error}\<close> when the response
  to the first entry has not arrived yet, has arrived with a result, or arrives later,
  whatever it carries. If an error response to the first entry arrived before, the promise
  is rejected with \<^verbatim>\<open>{method:"a", index:0, error}\<close> and stays so. The counter is a Number:
  the statement is for a counter below \<open>2 ^ 53\<close>.
\<close>

theorem batch_of_three:
  assumes "transport s = Some t" and "id_counter s < 2 ^ 53"
  shows "send_batch_request example_batch s =
     (Inr (length (promises s) + 2),
      s\<lparr>id_counter := number_increment (id_counter s + 1),
        pending_callbacks :=
          (pending_callbacks s)
            (nat_to_string (id_counter s) \<mapsto> BatchCallback (length (promises s)) ''a'' 0,
             nat_to_string (id_counter s + 1) \<mapsto> BatchCallback (length (promises s) + 1) ''c'' 2),
        sent := sent s @
          [(t, JArr [JObj [(''jsonrpc'', JStr ''2.0''), (''method'', JStr ''a''),
                           (''id'', JStr (nat_to_string (id_counter s)))],
                     JObj [(''jsonrpc'', JStr ''2.0''), (''method'', JStr ''b'')],
                     JObj [(''jsonrpc'', JStr ''2.0''), (''method'', JStr ''c''),
                           (''id'', JStr (nat_to_string (id_counter s + 1)))]])],
        promises := promises s @
          [Promise Pending, Promise Pending,
           PromiseAll [length (promises s), length (promises s) + 1] Pending]\<rparr>)
   \<and> batch_outcome [] s = Some Pending
   \<and> (r0 \<noteq> JNull
      \<longrightarrow> batch_outcome [result_frame (nat_to_string (id_counter s)) r0] s = Some Pending)
   \<and> (r2 \<noteq> JNull
      \<longrightarrow> batch_outcome [result_frame (nat_to_string (id_counter s + 1)) r2] s = Some Pending)
   \<and> (r0 \<noteq> JNull \<and> r2 \<noteq> JNull
      \<longrightarrow> batch_outcome [result_frame (nat_to_string (id_counter s)) r0,
                         result_frame (nat_to_string (id_counter s + 1)) r2] s
          = Some (Fulfilled (JArr
              [JObj [(''method'', JStr ''a''), (''index'', JNum 0), (''result'', r0)],
               JObj [(''method'', JStr ''c''), (''index'', JNum 2), (''result'', r2)]]))
        \<and> batch_outcome [result_frame (nat_to_string (id_counter s + 1)) r2,
                         result_frame (nat_to_string (id_counter s)) r0] s
          = Some (Fulfilled (JArr
              [JObj [(''method'', JStr ''a''), (''index'', JNum 0), (''result'', r0)],
               JObj [(''method'', JStr ''c''), (''index'', JNum 2), (''result'', r2)]])))
   \<and> (e2 \<noteq> JNull
      \<longrightarrow> batch_outcome [error_reply (nat_to_string (id_counter s + 1)) e2] s
          = Some (Rejected (Reason
              (JObj [(''method'', JStr ''c''), (''index'', JNum 2), (''error'', e2)]))))
   \<and> (e2 \<noteq> JNull \<and> r0 \<noteq> JNull
      \<longrightarrow> batch_outcome [result_frame (nat_to_string (id_counter s)) r0,
                         error_reply (nat_to_string (id_counter s + 1)) e2] s
          = Some (Rejected (Reason
              (JObj [(''method'', JStr ''c''), (''index'', JNum 2), (''error'', e2)])))
        \<and> batch_outcome [error_reply (nat_to_string (id_counter s + 1)) e2,
                         result_frame (nat_to_string (id_counter s)) r0] s
          = Some (Rejected (Reason
              (JObj [(''method'', JStr ''c''), (''index'', JNum 2), (''error'', e2)]))))
   \<and> (e2 \<noteq> JNull \<and> e0 \<noteq> JNull
      \<longrightarrow> batch_outcome [error_reply (nat_to_string (id_counter s + 1)) e2,
                         error_reply (nat_to_string (id_counter s)) e0] s
          = Some (Rejected (Reason
              (JObj [(''method'', JStr ''c''), (''index'', JNum 2), (''error'', e2)])))
        \<and> batch_outcome [error_reply (nat_to_string (id_counter s)) e0,
                         error_reply (nat_to_string (id_counter s + 1)) e2] s
          = Some (Rejected (Reason
              (JObj [(''method'', JStr ''a''), (''index'', JNum 0), (''error'', e0)]))))"
proof -
  note sends = send_example_batch [OF assms]
  note none = batch_unanswered [OF assms]
  note one = batch_one_result(1) [OF assms, of r0] batch_one_result(2) [OF assms, of r2]
  note both = batch_both_results [OF assms, of r0 r2]
  note last = batch_last_error(1) [OF assms, of e2] batch_last_error(2,3) [OF assms, of e2 r0]
    batch_last_error(4) [OF assms, of e2 e0]
  note first = batch_first_error [OF assms, of e0 e2]
  show ?thesis
    using sends none one both last first by (simp add: batch_response_def)
qed

theorem batch_of_three_witness:
  "transport engine_with_transport = Some 0 \<and> id_counter engine_with_transport < 2 ^ 53
   \<and> sent (snd (send_batch_request example_batch engine_with_transport)) =
       [(0, JArr [JObj [(''jsonrpc'', JStr ''2.0''), (''method'', JStr ''a''), (''id'', JStr ''0'')],
                  JObj [(''jsonrpc'', JStr ''2.0''), (''method'', JStr ''b'')],
                  JObj [(''jsonrpc'', JStr ''2.0''), (''method'', JStr ''c''), (''id'', JStr ''1'')]])]
   \<and> batch_outcome [result_frame ''1'' (JStr ''done'')] engine_with_transport = Some Pending
   \<and> batch_outcome [result_frame ''1'' (JStr ''done''), result_frame ''0'' (JStr ''ok'')]
        engine_with_transport
      = Some (Fulfilled (JArr
          [JObj [(''method'', JStr ''a''), (''index'', JNum 0), (''result'', JStr ''ok'')],
           JObj [(''method'', JStr ''c''), (''index'', JNum 2), (''result'', JStr ''done'')]]))
   \<and> batch_outcome [result_frame ''0'' (JStr ''ok''), error_reply ''1'' (JStr ''bad'')]
        engine_with_transport
      = Some (Rejected (Reason
          (JObj [(''method'', JStr ''c''), (''index'', JNum 2), (''error'', JStr ''bad'')])))
   \<and> batch_outcome [error_reply ''1'' (JStr ''bad''), error_reply ''0'' (JStr ''worse'')]
        engine_with_transport
      = Some (Rejected (Reason
          (JObj [(''method'', JStr ''c''), (''index'', JNum 2), (''error'', JStr ''bad'')])))
   \<and> batch_outcome [error_reply ''0'' (JStr ''worse''), error_reply ''1'' (JStr ''bad'')]
        engine_with_transport
      = Some (Rejected (Reason
          (JObj [(''method'', JStr ''a''), (''index'', JNum 0), (''error'', JStr ''worse'')])))"
proof -
  have uids: "nat_to_string 0 = ''0''" "nat_to_string (Suc 0) = ''1''"
    by (simp_all add: nat_to_string.simps digit_char_def)
  show ?thesis
    using batch_of_three
      [of engine_with_transport 0 "JStr ''ok''" "JStr ''done''" "JStr ''bad''" "JStr ''worse''"]
    by (simp add: engine_with_transport_eq uids)
qed

text \<open>
  Claim C3 as stated (an error response to the third entry rejects the promise with
  \<^verbatim>\<open>{method:"c", index:2, error}\<close> whatever the outcome of the first) fails: when an error
  response to the first entry arrives first, the promise is rejected with the first entry's
  error, as \<^verbatim>\<open>Promise.all\<close> rejects with the first rejection.
\<close>

theorem batch_first_error_counterexample:
  "batch_outcome [error_reply ''0'' (JStr ''first''), error_reply ''1'' (JStr ''second'')]
     engine_with_transport
   = Some (Rejected (Reason
       (JObj [(''method'', JStr ''a''), (''index'', JNum 0), (''error'', JStr ''first'')])))"
proof -
  have uids: "nat_to_string 0 = ''0''" "nat_to_string (Suc 0) = ''1''"
    by (simp_all add: nat_to_string.simps digit_char_def)
  show ?thesis
    using batch_first_error [of engine_with_transport 0 "JStr ''first''" "JStr ''second''"]
    by (simp add: engine_with_transport_eq uids batch_response_def)
qed

end
